theory Spec2Isabelle
  imports Main "HOL-Library.Sublist"
begin

section \<open>Data model\<close>

text \<open>
  The repository holds three near-identical front ends. Two of them (the virtual try-on
  page and the background-composite page, both in \<^verbatim>\<open>src/unnamed/part_000\<close>) keep a result
  store and a history; the third (\<^verbatim>\<open>src/index.tsx\<close>) only fills an output grid.
  JavaScript strings are modelled as \<^typ>\<open>string\<close>; a character outside ASCII is written
  as its UTF-8 bytes. An optional or possibly \<^verbatim>\<open>undefined\<close> value is an \<^typ>\<open>'a option\<close>.
\<close>

text \<open>\<^verbatim>\<open>type HistoryItem = { original: string; variants: string[] }\<close>\<close>

record history_item =
  original :: string
  variants :: "string list"

text \<open>
  What the platform gives for an uploaded \<^verbatim>\<open>File\<close>: its \<^verbatim>\<open>type\<close>, and the outcome of
  \<^verbatim>\<open>FileReader.readAsDataURL\<close>: \<open>Some\<close> of the data URL when \<^verbatim>\<open>onload\<close> fires,
  \<open>None\<close> when \<^verbatim>\<open>onerror\<close> fires.
\<close>

record upload_file =
  fileName :: string
  fileType :: string
  readAsDataURL :: "string option"

text \<open>The object \<^verbatim>\<open>{ mimeType, data, url }\<close> that \<^verbatim>\<open>fileToGenerativePart\<close> resolves to.\<close>

record generative_part =
  mimeType :: string
  data :: "string option"
  url :: string

text \<open>The request handed to \<^verbatim>\<open>ai.models.generateContent\<close>.\<close>

datatype 'p request_part = InlineData 'p | Text string

datatype modality = IMAGE | TEXT

record 'p request =
  model :: string
  contentsParts :: "'p request_part list"
  responseModalities :: "modality list"

text \<open>
  The response of the generation service, as far as the handlers read it:
  \<^verbatim>\<open>response.candidates?.[0]?.content?.parts\<close>, each part's \<^verbatim>\<open>inlineData\<close>
  (with \<^verbatim>\<open>mimeType\<close> and \<^verbatim>\<open>data\<close>), and \<^verbatim>\<open>response.text\<close>. The response object
  belongs to the client library; \<^verbatim>\<open>response.text\<close> is taken as the library gives it, a
  string or \<^verbatim>\<open>undefined\<close>.
\<close>

record blob =
  blobMimeType :: string
  blobData :: string

record part =
  inlineData :: "blob option"
  partText :: "string option"

record content =
  parts :: "part list option"

record candidate =
  candidateContent :: "content option"

record response =
  candidates :: "candidate list option"
  responseText :: "string option"

text \<open>A value thrown inside the handler's \<^verbatim>\<open>try\<close> block.\<close>

datatype thrown = FileReadFailed | DispatchFailed string | TypeError

text \<open>The three error kinds of a generation request.\<close>

datatype error = MissingInput | ServiceFailure | NoImageReturned string

text \<open>Children of \<^verbatim>\<open>variantsContainer\<close> and of \<^verbatim>\<open>historyContainer\<close>.\<close>

datatype variant_child =
  Placeholder
  | Thumbnail (thumbSrc: string) (thumbActive: bool)

datatype history_child =
  EmptyMsg
  | HistoryImg (imgSrc: "string option") (clickItem: history_item)

text \<open>
  The module-level variables and the part of the page that the handlers of
  \<^verbatim>\<open>src/unnamed/part_000\<close> read and write, together with a log of the effects on the
  outside world (\<^verbatim>\<open>alert\<close>, \<^verbatim>\<open>console.error\<close>, calls of the generation service).
\<close>

record app_state =
  productFile :: "upload_file option"
  photoFile :: "upload_file option"
  apiKey :: "string option"
  scaleSliderValue :: string
  shadowSliderValue :: string
  placementSelectValue :: string
  originalPhotoSrc :: string
  currentGeneratedSources :: "string list"
  history :: "history_item list"
  generateDisabled :: bool
  buttonText :: string
  spinnerDisplay :: string
  outputDisplay :: string
  downloadDisplay :: string
  comparisonLoading :: bool
  variantsChildren :: "variant_child list"
  beforeImageSrc :: string
  afterImageSrc :: string
  comparisonSliderValue :: string
  afterImageClipPath :: string
  comparisonHandleLeft :: string
  historyEmptyMsg :: bool
  historyChildren :: "history_child list"
  alerts :: "string list"
  consoleErrors :: "thrown list"
  calls :: "generative_part request list"

section \<open>JavaScript helpers\<close>

text \<open>Truthiness of a \<^verbatim>\<open>string | undefined\<close>: \<^verbatim>\<open>undefined\<close> and \<^verbatim>\<open>""\<close> are falsy.\<close>

definition truthy :: "string option \<Rightarrow> bool" where
  "truthy v = (case v of None \<Rightarrow> False | Some t \<Rightarrow> t \<noteq> [])"

text \<open>\<^verbatim>\<open>v || d\<close> for a \<^verbatim>\<open>string | undefined\<close> \<open>v\<close> and a string \<open>d\<close>.\<close>

definition or_else :: "string option \<Rightarrow> string \<Rightarrow> string" where
  "or_else v d = (case v of None \<Rightarrow> d | Some t \<Rightarrow> if t = [] then d else t)"

text \<open>\<^verbatim>\<open>s.split(c)\<close> for a one-character separator.\<close>

fun js_split :: "char \<Rightarrow> string \<Rightarrow> string list" where
  "js_split c [] = [[]]"
| "js_split c (x # xs) =
     (if x = c then [] # js_split c xs
      else (case js_split c xs of
              [] \<Rightarrow> [[x]]
            | y # ys \<Rightarrow> (x # y) # ys))"

text \<open>\<^verbatim>\<open>xs[i]\<close>, which is \<^verbatim>\<open>undefined\<close> out of range.\<close>

fun js_index :: "'a list \<Rightarrow> nat \<Rightarrow> 'a option" where
  "js_index [] i = None"
| "js_index (x # xs) 0 = Some x"
| "js_index (x # xs) (Suc i) = js_index xs i"

text \<open>\<^verbatim>\<open>xs.unshift(x)\<close> and \<^verbatim>\<open>xs.pop()\<close> (the list after the call).\<close>

definition unshift :: "'a \<Rightarrow> 'a list \<Rightarrow> 'a list" where
  "unshift x xs = x # xs"

definition pop :: "'a list \<Rightarrow> 'a list" where
  "pop xs = butlast xs"

abbreviation NL :: string where
  "NL \<equiv> [CHR 0x0A]"

section \<open>Prompt templates\<close>

text \<open>The template literal of the try-on page (\<^verbatim>\<open>part_000\<close>, lines 276-288).\<close>

definition prompt_tryon :: "string \<Rightarrow> string" where
  "prompt_tryon scale =
    ''Task: Virtual Try-On.'' @ NL @ NL @
    ''Base image: The second image provided (the user's photo).'' @ NL @
    ''Product image: The first image provided (the clothing item).'' @ NL @ NL @
    ''Instructions:'' @ NL @
    ''1. Identify the main person in the base image.'' @ NL @
    ''2. Replace the clothing worn by the person (e.g., dress, shirt, top) with the clothing from the product image.'' @ NL @
    ''3. The new clothing should be scaled to approximately '' @ scale @
    ''% of the person's torso height to ensure a good fit.'' @ NL @
    ''4. Realistically adapt the product to the person's body shape, posture, and pose.'' @ NL @
    ''5. Match the lighting, shadows, and color temperature of the base image to create a seamless, photorealistic result.'' @ NL @
    ''6. Do not modify the person's face, body, or the background. Only change the clothing.'' @ NL @
    ''7. Generate 3 variants with slight variations in fit and drape.''"

text \<open>The template literal of the composite page (\<^verbatim>\<open>part_000\<close>, lines 641-649).\<close>

definition prompt_composite :: "string \<Rightarrow> string \<Rightarrow> string \<Rightarrow> string" where
  "prompt_composite placement scale shadow =
    ''Base image: The second image provided (the photo). Overlay image: The first image provided (the product).'' @ NL @ NL @
    ''Task: Insert the product from the overlay image into the base image at the '' @ placement @
    '' area.'' @ NL @
    ''Scale the product to about '' @ scale @
    ''% of the photo's width.'' @ NL @
    ''Match the scene'' @ [CHR 0xE2, CHR 0x80, CHR 0x99] @
    ''s lighting, color temperature, and perspective.'' @ NL @
    ''Add realistic shadows with an intensity of about '' @ shadow @
    '' (where 0.0 is none and 1.0 is dark).'' @ NL @
    ''Do not modify the person'' @ [CHR 0xE2, CHR 0x80, CHR 0x99] @
    ''s face or the background.'' @ NL @
    ''Output a natural-looking, high-resolution composite suitable for a premium ecommerce preview.'' @ NL @
    ''Generate 3 variants with slight rotation differences.''"

text \<open>The template literal of \<^verbatim>\<open>src/index.tsx\<close> (lines 130-138).\<close>

definition prompt_index :: "string \<Rightarrow> string \<Rightarrow> string \<Rightarrow> string" where
  "prompt_index placement scale shadow =
    ''Base image: The second image provided (the photo). Overlay image: The first image provided (the product).'' @ NL @ NL @
    ''Task: Insert the product from the overlay image into the base image at the '' @ placement @
    '' area.'' @ NL @
    ''Scale the product to about '' @ scale @
    ''% of the photo's width.'' @ NL @
    ''Match the scene'' @ [CHR 0xE2, CHR 0x80, CHR 0x99] @
    ''s lighting, color temperature, and perspective.'' @ NL @
    ''Add realistic shadows with an intensity of about '' @ shadow @
    ''%.'' @ NL @
    ''Do not modify the person'' @ [CHR 0xE2, CHR 0x80, CHR 0x99] @
    ''s face or the background.'' @ NL @
    ''Output a natural-looking, high-resolution composite suitable for a premium ecommerce preview.'' @ NL @
    ''Generate 3 variants with slight rotation differences.''"

text \<open>
  The two pages of \<^verbatim>\<open>part_000\<close> differ, in their click handler, only in the template:
  the try-on page has no shadow slider and no placement select.
\<close>

datatype page = TryOn | Composite

definition promptFor :: "page \<Rightarrow> app_state \<Rightarrow> string" where
  "promptFor pg s =
     (case pg of
        TryOn \<Rightarrow> prompt_tryon (scaleSliderValue s)
      | Composite \<Rightarrow>
          prompt_composite (placementSelectValue s) (scaleSliderValue s) (shadowSliderValue s))"

text \<open>
  The preset buttons of the composite page: \<^verbatim>\<open>applyPreset(40, 0.6)\<close> and
  \<^verbatim>\<open>applyPreset(15, 0.3)\<close> store \<^verbatim>\<open>String(scale)\<close> and \<^verbatim>\<open>String(shadow)\<close> in the
  sliders; the arguments are given here as JavaScript prints them. The labels beside the
  sliders are not modelled.
\<close>

definition applyPreset :: "string \<Rightarrow> string \<Rightarrow> app_state \<Rightarrow> app_state" where
  "applyPreset scale shadow s = s\<lparr>scaleSliderValue := scale, shadowSliderValue := shadow\<rparr>"

definition lifestylePresetClick :: "app_state \<Rightarrow> app_state" where
  "lifestylePresetClick s = applyPreset ''40'' ''0.6'' s"

definition subtlePresetClick :: "app_state \<Rightarrow> app_state" where
  "subtlePresetClick s = applyPreset ''15'' ''0.3'' s"

section \<open>The page helpers of \<^verbatim>\<open>part_000\<close>\<close>

definition checkFormValidity :: "app_state \<Rightarrow> app_state" where
  "checkFormValidity s =
     s\<lparr>generateDisabled := \<not> (productFile s \<noteq> None \<and> photoFile s \<noteq> None)\<rparr>"

definition fileToGenerativePart :: "upload_file \<Rightarrow> thrown + generative_part" where
  "fileToGenerativePart f =
     (case readAsDataURL f of
        None \<Rightarrow> Inl FileReadFailed
      | Some result \<Rightarrow>
          Inr \<lparr>mimeType = fileType f,
               data = js_index (js_split CHR '','' result) 1,
               url = result\<rparr>)"

definition setLoadingState :: "bool \<Rightarrow> app_state \<Rightarrow> app_state" where
  "setLoadingState isLoading s =
     (let s1 = s\<lparr>generateDisabled := isLoading,
                  buttonText := (if isLoading then ''Generating...'' else ''Generate''),
                  spinnerDisplay := (if isLoading then ''block'' else ''none'')\<rparr>
      in if \<not> isLoading then checkFormValidity s1 else s1)"

definition showLoadingPlaceholders :: "app_state \<Rightarrow> app_state" where
  "showLoadingPlaceholders s =
     s\<lparr>outputDisplay := ''block'',
       downloadDisplay := ''none'',
       comparisonLoading := True,
       variantsChildren := replicate 3 Placeholder\<rparr>"

definition hideLoadingPlaceholders :: "app_state \<Rightarrow> app_state" where
  "hideLoadingPlaceholders s = s\<lparr>comparisonLoading := False\<rparr>"

text \<open>
  \<^verbatim>\<open>querySelectorAll('.variant-thumbnail').forEach((thumb, i) => toggle('active', i === index))\<close>:
  the index counts the thumbnails only.
\<close>

fun toggleActive :: "nat \<Rightarrow> nat \<Rightarrow> variant_child list \<Rightarrow> variant_child list" where
  "toggleActive index i [] = []"
| "toggleActive index i (Placeholder # cs) = Placeholder # toggleActive index i cs"
| "toggleActive index i (Thumbnail src a # cs) =
     Thumbnail src (i = index) # toggleActive index (Suc i) cs"

definition updateMainImage :: "string \<Rightarrow> nat \<Rightarrow> app_state \<Rightarrow> app_state" where
  "updateMainImage src index s =
     s\<lparr>afterImageSrc := src,
       variantsChildren := toggleActive index 0 (variantsChildren s)\<rparr>"

definition createThumbnails :: "string list \<Rightarrow> app_state \<Rightarrow> app_state" where
  "createThumbnails sources s =
     s\<lparr>variantsChildren :=
         map (\<lambda>(index, src). Thumbnail src (index = 0)) (enumerate 0 sources)\<rparr>"

text \<open>
  \<^verbatim>\<open>showResult\<close>. Setting the comparison slider to \<^verbatim>\<open>'50'\<close> and dispatching its
  \<^verbatim>\<open>input\<close> event runs the slider's listener, which at this value writes the clip path
  \<^verbatim>\<open>inset(0 50% 0 0)\<close> and the handle position \<^verbatim>\<open>50%\<close>.
\<close>

definition showResult :: "history_item \<Rightarrow> app_state \<Rightarrow> app_state" where
  "showResult result s =
     (let s1 = s\<lparr>beforeImageSrc := original result,
                  currentGeneratedSources := variants result\<rparr>;
          s2 = updateMainImage (or_else (js_index (currentGeneratedSources s1) 0) []) 0 s1;
          s3 = createThumbnails (currentGeneratedSources s2) s2
      in s3\<lparr>comparisonSliderValue := ''50'',
            afterImageClipPath := ''inset(0 50% 0 0)'',
            comparisonHandleLeft := ''50%'',
            downloadDisplay := ''flex'',
            outputDisplay := ''block''\<rparr>)"

section \<open>History\<close>

definition renderHistory :: "app_state \<Rightarrow> app_state" where
  "renderHistory s =
     (if length (history s) = 0
      then s\<lparr>historyChildren := (if historyEmptyMsg s then [EmptyMsg] else [])\<rparr>
      else s\<lparr>historyChildren :=
               map (\<lambda>item. HistoryImg (js_index (variants item) 0) item) (history s)\<rparr>)"

text \<open>
  The three lines under \<^verbatim>\<open>// Update history\<close>:
  \<^verbatim>\<open>history.unshift(newResult); if (history.length > 5) history.pop(); renderHistory();\<close>
\<close>

definition updateHistory :: "history_item \<Rightarrow> app_state \<Rightarrow> app_state" where
  "updateHistory newResult s =
     (let s1 = s\<lparr>history := unshift newResult (history s)\<rparr>;
          s2 = (if length (history s1) > 5 then s1\<lparr>history := pop (history s1)\<rparr> else s1)
      in renderHistory s2)"

text \<open>
  A click on the \<open>i\<close>-th child of the history container: each image was given the listener
  \<^verbatim>\<open>() => showResult(item)\<close> when it was rendered; the empty-state message has none.
\<close>

definition historyItemClick :: "nat \<Rightarrow> app_state \<Rightarrow> app_state" where
  "historyItemClick i s =
     (case js_index (historyChildren s) i of
        None \<Rightarrow> s
      | Some EmptyMsg \<Rightarrow> s
      | Some (HistoryImg src item) \<Rightarrow> showResult item s)"

section \<open>Response extraction\<close>

text \<open>
  \<^verbatim>\<open>response.candidates?.[0]?.content?.parts?.filter(part => part.inlineData)\<close>:
  \<open>None\<close> is \<^verbatim>\<open>undefined\<close>, the value of the chain when a link is missing.
\<close>

definition imageParts :: "response \<Rightarrow> part list option" where
  "imageParts resp =
     Option.bind (candidates resp) (\<lambda>cs.
     Option.bind (js_index cs 0) (\<lambda>c.
     Option.bind (candidateContent c) (\<lambda>ct.
     Option.bind (parts ct) (\<lambda>ps.
     Some (filter (\<lambda>part. inlineData part \<noteq> None) ps)))))"

text \<open>
  \<^verbatim>\<open>`data:${part.inlineData!.mimeType};base64,${part.inlineData!.data}`\<close>: reading a
  property of an absent \<^verbatim>\<open>inlineData\<close> throws a \<^verbatim>\<open>TypeError\<close>.
\<close>

definition imageSource :: "part \<Rightarrow> thrown + string" where
  "imageSource part =
     (case inlineData part of
        None \<Rightarrow> Inl TypeError
      | Some b \<Rightarrow> Inr (''data:'' @ blobMimeType b @ '';base64,'' @ blobData b))"

text \<open>\<^verbatim>\<open>imageParts.map(part => ...)\<close>, stopping at the first exception.\<close>

fun generatedSources :: "part list \<Rightarrow> thrown + string list" where
  "generatedSources [] = Inr []"
| "generatedSources (p # ps) =
     (case imageSource p of
        Inl e \<Rightarrow> Inl e
      | Inr src \<Rightarrow> (case generatedSources ps of
                      Inl e \<Rightarrow> Inl e
                    | Inr srcs \<Rightarrow> Inr (src # srcs)))"

section \<open>The click handler of \<^verbatim>\<open>part_000\<close>\<close>

definition alert :: "string \<Rightarrow> app_state \<Rightarrow> app_state" where
  "alert msg s = s\<lparr>alerts := alerts s @ [msg]\<rparr>"

text \<open>The \<^verbatim>\<open>else\<close> branch taken when no image part was found.\<close>

definition noImageBranch :: "response \<Rightarrow> app_state \<Rightarrow> (thrown + error + unit) \<times> app_state" where
  "noImageBranch resp s =
     (let explanation = or_else (responseText resp) ''No text response.''
      in (Inr (Inl (NoImageReturned explanation)),
          (alert (''Could not generate an image. Model response: '' @ explanation) s)
            \<lparr>outputDisplay := ''none''\<rparr>))"

text \<open>
  The handler from \<^verbatim>\<open>hideLoadingPlaceholders()\<close> after the awaited call to the end of the
  \<^verbatim>\<open>try\<close> block. The result is \<open>Inl\<close> of a thrown value, or \<open>Inr\<close> of how the block ended.
\<close>

definition handleResponse :: "response \<Rightarrow> app_state \<Rightarrow> (thrown + error + unit) \<times> app_state" where
  "handleResponse resp s0 =
     (let s = hideLoadingPlaceholders s0 in
      case imageParts resp of
        None \<Rightarrow> noImageBranch resp s
      | Some ips \<Rightarrow>
          if length ips > 0 then
            (case generatedSources ips of
               Inl e \<Rightarrow> (Inl e, s)
             | Inr srcs \<Rightarrow>
                 if length srcs > 0 then
                   (let newResult = \<lparr>original = originalPhotoSrc s, variants = srcs\<rparr>
                    in (Inr (Inr ()), updateHistory newResult (showResult newResult s)))
                 else (Inr (Inr ()), s))
          else noImageBranch resp s)"

text \<open>
  The \<^verbatim>\<open>try\<close> block. The generation service is the parameter \<open>net\<close>: it answers a request
  with a response or fails with a message; every call is logged in \<open>calls\<close>.
\<close>

definition tryBlock ::
  "page \<Rightarrow> (generative_part request \<Rightarrow> string + response) \<Rightarrow> app_state
     \<Rightarrow> (thrown + error + unit) \<times> app_state" where
  "tryBlock pg net s =
     (case fileToGenerativePart (the (productFile s)) of
        Inl e \<Rightarrow> (Inl e, s)
      | Inr productPart \<Rightarrow>
          (case fileToGenerativePart (the (photoFile s)) of
             Inl e \<Rightarrow> (Inl e, s)
           | Inr photoPart \<Rightarrow>
               (let s1 = s\<lparr>originalPhotoSrc := url photoPart\<rparr>;
                    prompt = promptFor pg s1;
                    req = \<lparr>model = ''gemini-2.5-flash-image-preview'',
                           contentsParts =
                             [InlineData productPart, InlineData photoPart, Text prompt],
                           responseModalities = [IMAGE, TEXT]\<rparr>;
                    s2 = s1\<lparr>calls := calls s1 @ [req]\<rparr>
                in case net req of
                     Inl msg \<Rightarrow> (Inl (DispatchFailed msg), s2)
                   | Inr resp \<Rightarrow> handleResponse resp s2)))"

definition catchBlock :: "thrown \<Rightarrow> app_state \<Rightarrow> app_state" where
  "catchBlock e s =
     (alert ''An error occurred. Please check the console for details.''
        (s\<lparr>consoleErrors := consoleErrors s @ [e]\<rparr>))
       \<lparr>outputDisplay := ''none''\<rparr>"

definition finallyBlock :: "app_state \<Rightarrow> app_state" where
  "finallyBlock s = hideLoadingPlaceholders (setLoadingState False s)"

text \<open>
  The listener of the generate button. It returns how the request ended (one of the three
  error kinds, or \<open>Inr ()\<close>) with the state it leaves.
\<close>

definition generateClick ::
  "page \<Rightarrow> (generative_part request \<Rightarrow> string + response) \<Rightarrow> app_state
     \<Rightarrow> (error + unit) \<times> app_state" where
  "generateClick pg net s =
     (if productFile s = None \<or> photoFile s = None \<or> \<not> truthy (apiKey s)
      then (Inl MissingInput, alert ''Please provide both product and scene photos.'' s)
      else
        (let s1 = showLoadingPlaceholders (setLoadingState True s)
         in case tryBlock pg net s1 of
              (Inl e, s2) \<Rightarrow> (Inl ServiceFailure, finallyBlock (catchBlock e s2))
            | (Inr r, s2) \<Rightarrow> (r, finallyBlock s2)))"

section \<open>The page of \<^verbatim>\<open>src/index.tsx\<close>\<close>

text \<open>The object \<^verbatim>\<open>{ mimeType, data }\<close> of this page's \<^verbatim>\<open>fileToGenerativePart\<close>.\<close>

record index_part =
  ixMimeType :: string
  ixData :: "string option"

text \<open>An \<^verbatim>\<open>img\<close> appended to the output grid.\<close>

record grid_img =
  gridSrc :: string
  gridAlt :: string

record index_state =
  ixProductFile :: "upload_file option"
  ixPhotoFile :: "upload_file option"
  ixApiKey :: "string option"
  ixScaleSliderValue :: string
  ixShadowSliderValue :: string
  ixPlacementSelectValue :: string
  ixGenerateDisabled :: bool
  ixButtonText :: string
  ixSpinnerDisplay :: string
  ixOutputDisplay :: string
  ixOutputGrid :: "grid_img list"
  ixAlerts :: "string list"
  ixConsoleErrors :: "thrown list"
  ixCalls :: "index_part request list"

definition ixCheckFormValidity :: "index_state \<Rightarrow> index_state" where
  "ixCheckFormValidity s =
     s\<lparr>ixGenerateDisabled := \<not> (ixProductFile s \<noteq> None \<and> ixPhotoFile s \<noteq> None)\<rparr>"

text \<open>
  After \<^verbatim>\<open>readAsDataURL\<close> the reader's result is a string whenever \<^verbatim>\<open>onload\<close> fires, so
  the \<^verbatim>\<open>typeof reader.result !== 'string'\<close> rejection has no case of its own here.
\<close>

definition ixFileToGenerativePart :: "upload_file \<Rightarrow> thrown + index_part" where
  "ixFileToGenerativePart f =
     (case readAsDataURL f of
        None \<Rightarrow> Inl FileReadFailed
      | Some result \<Rightarrow>
          Inr \<lparr>ixMimeType = fileType f,
               ixData = js_index (js_split CHR '','' result) 1\<rparr>)"

definition ixSetLoadingState :: "bool \<Rightarrow> index_state \<Rightarrow> index_state" where
  "ixSetLoadingState isLoading s =
     (let s0 = s\<lparr>ixGenerateDisabled := isLoading\<rparr>
      in if isLoading
         then s0\<lparr>ixButtonText := ''Generating...'', ixSpinnerDisplay := ''block''\<rparr>
         else ixCheckFormValidity
                (s0\<lparr>ixButtonText := ''Generate Try-On'', ixSpinnerDisplay := ''none''\<rparr>))"

definition ixAlert :: "string \<Rightarrow> index_state \<Rightarrow> index_state" where
  "ixAlert msg s = s\<lparr>ixAlerts := ixAlerts s @ [msg]\<rparr>"

text \<open>
  \<^verbatim>\<open>imageParts.forEach(part => { if (part.inlineData) { ... outputGrid.appendChild(img) } })\<close>
\<close>

fun ixAppendImages :: "part list \<Rightarrow> index_state \<Rightarrow> index_state" where
  "ixAppendImages [] s = s"
| "ixAppendImages (p # ps) s =
     (case inlineData p of
        None \<Rightarrow> ixAppendImages ps s
      | Some b \<Rightarrow>
          ixAppendImages ps
            (s\<lparr>ixOutputGrid := ixOutputGrid s @
                 [\<lparr>gridSrc = ''data:'' @ blobMimeType b @ '';base64,'' @ blobData b,
                   gridAlt = ''Generated try-on variant''\<rparr>]\<rparr>))"

definition ixHandleResponse :: "response \<Rightarrow> index_state \<Rightarrow> (error + unit) \<times> index_state" where
  "ixHandleResponse resp s =
     (let noImage =
            (let explanation = or_else (responseText resp) ''No text response.''
             in (Inl (NoImageReturned explanation),
                 ixAlert (''Could not generate an image. Model response: '' @ explanation) s))
      in case imageParts resp of
           None \<Rightarrow> noImage
         | Some ips \<Rightarrow>
             if length ips > 0
             then (Inr (), (ixAppendImages ips s)\<lparr>ixOutputDisplay := ''block''\<rparr>)
             else noImage)"

definition ixTryBlock ::
  "(index_part request \<Rightarrow> string + response) \<Rightarrow> index_state
     \<Rightarrow> (thrown + error + unit) \<times> index_state" where
  "ixTryBlock net s =
     (case ixFileToGenerativePart (the (ixProductFile s)) of
        Inl e \<Rightarrow> (Inl e, s)
      | Inr productPart \<Rightarrow>
          (case ixFileToGenerativePart (the (ixPhotoFile s)) of
             Inl e \<Rightarrow> (Inl e, s)
           | Inr photoPart \<Rightarrow>
               (let scale = ixScaleSliderValue s;
                    placement = ixPlacementSelectValue s;
                    shadow = ixShadowSliderValue s;
                    prompt = prompt_index placement scale shadow;
                    req = \<lparr>model = ''gemini-2.5-flash-image-preview'',
                           contentsParts =
                             [InlineData productPart, InlineData photoPart, Text prompt],
                           responseModalities = [IMAGE, TEXT]\<rparr>;
                    s1 = s\<lparr>ixCalls := ixCalls s @ [req]\<rparr>
                in case net req of
                     Inl msg \<Rightarrow> (Inl (DispatchFailed msg), s1)
                   | Inr resp \<Rightarrow>
                       (case ixHandleResponse resp s1 of (r, s2) \<Rightarrow> (Inr r, s2)))))"

definition ixCatchBlock :: "thrown \<Rightarrow> index_state \<Rightarrow> index_state" where
  "ixCatchBlock e s =
     ixAlert
       ''An error occurred while generating the image. Please check the console for details.''
       (s\<lparr>ixConsoleErrors := ixConsoleErrors s @ [e]\<rparr>)"

definition ixGenerateClick ::
  "(index_part request \<Rightarrow> string + response) \<Rightarrow> index_state
     \<Rightarrow> (error + unit) \<times> index_state" where
  "ixGenerateClick net s =
     (if ixProductFile s = None \<or> ixPhotoFile s = None \<or> \<not> truthy (ixApiKey s)
      then (Inl MissingInput,
            ixAlert
              ''Please upload both a product and a photo, and ensure the API key is set.'' s)
      else
        (let s1 = (ixSetLoadingState True s)\<lparr>ixOutputGrid := [], ixOutputDisplay := ''none''\<rparr>
         in case ixTryBlock net s1 of
              (Inl e, s2) \<Rightarrow> (Inl ServiceFailure, ixSetLoadingState False (ixCatchBlock e s2))
            | (Inr r, s2) \<Rightarrow> (r, ixSetLoadingState False s2)))"

section \<open>Concrete inputs\<close>

text \<open>
  Two uploaded files, a page of \<^verbatim>\<open>part_000\<close> that shows an earlier result and has both
  files selected (scale 40, shadow 0.6), a page of \<^verbatim>\<open>index.tsx\<close> in the same situation,
  responses with and without image parts, and generation services that answer with
  images, answer with text only, or fail.
\<close>

definition example_product :: upload_file where
  "example_product =
     \<lparr>fileName = ''shirt.jpg'', fileType = ''image/jpeg'',
      readAsDataURL = Some ''data:image/jpeg;base64,AAAA''\<rparr>"

definition example_photo :: upload_file where
  "example_photo =
     \<lparr>fileName = ''me.png'', fileType = ''image/png'',
      readAsDataURL = Some ''data:image/png;base64,BBBB''\<rparr>"

definition example_item :: history_item where
  "example_item =
     \<lparr>original = ''data:image/png;base64,OLD0'', variants = [''data:image/png;base64,VAR0'']\<rparr>"

definition example_state :: app_state where
  "example_state =
     \<lparr>productFile = Some example_product,
      photoFile = Some example_photo,
      apiKey = Some ''key'',
      scaleSliderValue = ''40'',
      shadowSliderValue = ''0.6'',
      placementSelectValue = ''center'',
      originalPhotoSrc = ''data:image/png;base64,OLD0'',
      currentGeneratedSources = [''data:image/png;base64,VAR0''],
      history = [example_item],
      generateDisabled = False,
      buttonText = ''Generate'',
      spinnerDisplay = ''none'',
      outputDisplay = ''block'',
      downloadDisplay = ''flex'',
      comparisonLoading = False,
      variantsChildren = [Thumbnail ''data:image/png;base64,VAR0'' True],
      beforeImageSrc = ''data:image/png;base64,OLD0'',
      afterImageSrc = ''data:image/png;base64,VAR0'',
      comparisonSliderValue = ''50'',
      afterImageClipPath = ''inset(0 50% 0 0)'',
      comparisonHandleLeft = ''50%'',
      historyEmptyMsg = True,
      historyChildren = [HistoryImg (Some ''data:image/png;base64,VAR0'') example_item],
      alerts = [],
      consoleErrors = [],
      calls = []\<rparr>"

definition example_index_state :: index_state where
  "example_index_state =
     \<lparr>ixProductFile = Some example_product,
      ixPhotoFile = Some example_photo,
      ixApiKey = Some ''key'',
      ixScaleSliderValue = ''40'',
      ixShadowSliderValue = ''60'',
      ixPlacementSelectValue = ''center'',
      ixGenerateDisabled = False,
      ixButtonText = ''Generate Try-On'',
      ixSpinnerDisplay = ''none'',
      ixOutputDisplay = ''none'',
      ixOutputGrid = [],
      ixAlerts = [],
      ixConsoleErrors = [],
      ixCalls = []\<rparr>"

definition text_part :: part where
  "text_part = \<lparr>inlineData = None, partText = Some ''Here are the variants.''\<rparr>"

definition image_part_1 :: part where
  "image_part_1 =
     \<lparr>inlineData = Some \<lparr>blobMimeType = ''image/png'', blobData = ''IMG1''\<rparr>, partText = None\<rparr>"

definition image_part_2 :: part where
  "image_part_2 =
     \<lparr>inlineData = Some \<lparr>blobMimeType = ''image/jpeg'', blobData = ''IMG2''\<rparr>, partText = None\<rparr>"

definition example_response :: response where
  "example_response =
     \<lparr>candidates =
        Some [\<lparr>candidateContent = Some \<lparr>parts = Some [image_part_1, text_part, image_part_2]\<rparr>\<rparr>],
      responseText = Some ''Here are the variants.''\<rparr>"

definition text_only_response :: response where
  "text_only_response =
     \<lparr>candidates = Some [\<lparr>candidateContent = Some \<lparr>parts = Some [text_part]\<rparr>\<rparr>],
      responseText = Some ''Here are the variants.''\<rparr>"

definition second_candidate_response :: response where
  "second_candidate_response =
     \<lparr>candidates =
        Some [\<lparr>candidateContent = None\<rparr>,
              \<lparr>candidateContent = Some \<lparr>parts = Some [image_part_1]\<rparr>\<rparr>],
      responseText = None\<rparr>"

definition image_net :: "generative_part request \<Rightarrow> string + response" where
  "image_net req = Inr example_response"

definition text_only_net :: "generative_part request \<Rightarrow> string + response" where
  "text_only_net req = Inr text_only_response"

definition failing_net :: "generative_part request \<Rightarrow> string + response" where
  "failing_net req = Inl ''503 Service Unavailable''"

definition index_image_net :: "index_part request \<Rightarrow> string + response" where
  "index_image_net req = Inr example_response"

section \<open>Auxiliary facts\<close>

lemma history_showResult [simp]: "history (showResult r s) = history s"
  by (simp add: showResult_def updateMainImage_def createThumbnails_def Let_def)

lemma historyChildren_showResult [simp]: "historyChildren (showResult r s) = historyChildren s"
  by (simp add: showResult_def updateMainImage_def createThumbnails_def Let_def)

lemma history_updateHistory:
  "history (updateHistory r s) =
     (if 5 \<le> length (history s) then butlast (r # history s) else r # history s)"
  by (simp add: updateHistory_def renderHistory_def unshift_def pop_def Let_def)

lemma history_updateHistory_take:
  "length (history s) \<le> 5 \<Longrightarrow> history (updateHistory r s) = take 5 (r # history s)"
  by (auto simp add: history_updateHistory butlast_conv_take)

lemma take_append_take: "take n (xs @ take n ys) = take n (xs @ ys)"
  by (simp add: min_absorb1)

lemma foldl_updateHistory:
  "length (history s) \<le> 5 \<Longrightarrow>
   history (foldl (\<lambda>s r. updateHistory r s) s rs) = take 5 (rev rs @ history s)"
proof (induction rs arbitrary: s)
  case Nil
  then show ?case by simp
next
  case (Cons r rs)
  have len: "length (history (updateHistory r s)) \<le> 5"
    using Cons.prems by (simp add: history_updateHistory_take)
  have "history (foldl (\<lambda>s r. updateHistory r s) (updateHistory r s) rs)
        = take 5 (rev rs @ take 5 (r # history s))"
    using Cons.IH [OF len] Cons.prems by (simp add: history_updateHistory_take)
  also have "\<dots> = take 5 (rev rs @ r # history s)"
    using take_append_take [of 5 "rev rs" "r # history s"] by simp
  finally show ?case by simp
qed

lemma historyChildren_updateHistory:
  "historyChildren (updateHistory r s) =
     map (\<lambda>item. HistoryImg (js_index (variants item) 0) item) (history (updateHistory r s))"
  by (simp add: updateHistory_def renderHistory_def unshift_def pop_def Let_def)

lemma generatedSources_filter:
  "generatedSources (filter (\<lambda>part. inlineData part \<noteq> None) ps) =
     Inr (map (\<lambda>b. ''data:'' @ blobMimeType b @ '';base64,'' @ blobData b)
            (List.map_filter inlineData ps))"
  by (induction ps) (auto simp add: imageSource_def List.map_filter_simps split: option.splits)

lemma length_map_filter:
  "length (List.map_filter f xs) = length (filter (\<lambda>x. f x \<noteq> None) xs)"
  by (simp add: List.map_filter_def)

lemma imageParts_Some_filter:
  "imageParts resp = Some ips \<Longrightarrow> \<exists>ps. ips = filter (\<lambda>part. inlineData part \<noteq> None) ps"
  by (auto simp add: imageParts_def Option.bind_eq_Some_conv)

lemma handleResponse_images:
  assumes ip: "imageParts resp = Some ips"
    and ne: "ips \<noteq> []"
    and gs: "generatedSources ips = Inr srcs"
    and len: "length srcs = length ips"
  shows "handleResponse resp s =
     (Inr (Inr ()),
      updateHistory \<lparr>original = originalPhotoSrc s, variants = srcs\<rparr>
        (showResult \<lparr>original = originalPhotoSrc s, variants = srcs\<rparr>
           (hideLoadingPlaceholders s)))"
proof -
  have "0 < length ips" "0 < length srcs"
    using ne len by simp_all
  then show ?thesis
    by (simp add: handleResponse_def ip gs Let_def hideLoadingPlaceholders_def)
qed

lemma handleResponse_no_image:
  assumes "imageParts resp = None \<or> imageParts resp = Some []"
  shows "handleResponse resp s = noImageBranch resp (hideLoadingPlaceholders s)"
  using assms by (auto simp add: handleResponse_def Let_def)

lemma ixAppendImages_filter:
  "ixAppendImages (filter (\<lambda>part. inlineData part \<noteq> None) ps) s =
     s\<lparr>ixOutputGrid := ixOutputGrid s @
          map (\<lambda>b. \<lparr>gridSrc = ''data:'' @ blobMimeType b @ '';base64,'' @ blobData b,
                     gridAlt = ''Generated try-on variant''\<rparr>)
            (List.map_filter inlineData ps)\<rparr>"
proof (induction ps arbitrary: s)
  case Nil
  then show ?case by (simp add: List.map_filter_simps)
next
  case (Cons p ps)
  then show ?case
    by (cases "inlineData p") (simp_all add: List.map_filter_simps)
qed

lemma noImageBranch_fst:
  "fst (noImageBranch resp s) =
     Inr (Inl (NoImageReturned (or_else (responseText resp) ''No text response.'')))"
  by (simp add: noImageBranch_def Let_def)

lemma noImageBranch_alerts:
  "alerts (snd (noImageBranch resp s)) =
     alerts s @ [''Could not generate an image. Model response: '' @
                 or_else (responseText resp) ''No text response.'']"
  by (simp add: noImageBranch_def Let_def alert_def)

lemma generatedSources_of_imageParts:
  assumes "imageParts resp = Some ips"
  shows "generatedSources ips =
           Inr (map (\<lambda>b. ''data:'' @ blobMimeType b @ '';base64,'' @ blobData b)
                  (List.map_filter inlineData ips))
         \<and> length (List.map_filter inlineData ips) = length ips"
proof -
  obtain ps where ps: "ips = filter (\<lambda>part. inlineData part \<noteq> None) ps"
    using imageParts_Some_filter [OF assms] by blast
  have f: "filter (\<lambda>part. inlineData part \<noteq> None) ips = ips"
    unfolding ps by simp
  have "generatedSources (filter (\<lambda>part. inlineData part \<noteq> None) ips) =
           Inr (map (\<lambda>b. ''data:'' @ blobMimeType b @ '';base64,'' @ blobData b)
                  (List.map_filter inlineData ips))"
    by (rule generatedSources_filter)
  moreover have "length (List.map_filter inlineData ips) =
      length (filter (\<lambda>part. inlineData part \<noteq> None) ips)"
    by (rule length_map_filter)
  ultimately show ?thesis unfolding f by simp
qed

lemma handleResponse_char:
  "handleResponse resp s =
     (case imageParts resp of
        None \<Rightarrow> noImageBranch resp (hideLoadingPlaceholders s)
      | Some ips \<Rightarrow>
          if ips = [] then noImageBranch resp (hideLoadingPlaceholders s)
          else (Inr (Inr ()),
                updateHistory
                  \<lparr>original = originalPhotoSrc s,
                   variants = map (\<lambda>b. ''data:'' @ blobMimeType b @ '';base64,'' @ blobData b)
                                (List.map_filter inlineData ips)\<rparr>
                  (showResult
                     \<lparr>original = originalPhotoSrc s,
                      variants = map (\<lambda>b. ''data:'' @ blobMimeType b @ '';base64,'' @ blobData b)
                                   (List.map_filter inlineData ips)\<rparr>
                     (hideLoadingPlaceholders s))))"
proof (cases "imageParts resp")
  case None
  then show ?thesis by (simp add: handleResponse_no_image)
next
  case (Some ips)
  show ?thesis
  proof (cases "ips = []")
    case True
    then show ?thesis using Some by (simp add: handleResponse_no_image)
  next
    case False
    note g = generatedSources_of_imageParts [OF Some]
    show ?thesis
      using handleResponse_images [OF Some False conjunct1 [OF g], of s] g False Some
      by simp
  qed
qed

lemma noImageBranch_frame:
  "history (snd (noImageBranch resp s)) = history s"
  "currentGeneratedSources (snd (noImageBranch resp s)) = currentGeneratedSources s"
  "originalPhotoSrc (snd (noImageBranch resp s)) = originalPhotoSrc s"
  "calls (snd (noImageBranch resp s)) = calls s"
  by (simp_all add: noImageBranch_def alert_def Let_def)

lemma showResult_frame:
  "originalPhotoSrc (showResult r s) = originalPhotoSrc s"
  "calls (showResult r s) = calls s"
  "currentGeneratedSources (showResult r s) = variants r"
  "beforeImageSrc (showResult r s) = original r"
  by (simp_all add: showResult_def updateMainImage_def createThumbnails_def Let_def)

lemma updateHistory_frame:
  "originalPhotoSrc (updateHistory r s) = originalPhotoSrc s"
  "calls (updateHistory r s) = calls s"
  "currentGeneratedSources (updateHistory r s) = currentGeneratedSources s"
  by (simp_all add: updateHistory_def renderHistory_def Let_def)

lemma hide_frame:
  "history (hideLoadingPlaceholders s) = history s"
  "currentGeneratedSources (hideLoadingPlaceholders s) = currentGeneratedSources s"
  "originalPhotoSrc (hideLoadingPlaceholders s) = originalPhotoSrc s"
  "calls (hideLoadingPlaceholders s) = calls s"
  "alerts (hideLoadingPlaceholders s) = alerts s"
  by (simp_all add: hideLoadingPlaceholders_def)

lemma setLoadingState_frame:
  "history (setLoadingState b s) = history s"
  "currentGeneratedSources (setLoadingState b s) = currentGeneratedSources s"
  "originalPhotoSrc (setLoadingState b s) = originalPhotoSrc s"
  "calls (setLoadingState b s) = calls s"
  "alerts (setLoadingState b s) = alerts s"
  "productFile (setLoadingState b s) = productFile s"
  "photoFile (setLoadingState b s) = photoFile s"
  "scaleSliderValue (setLoadingState b s) = scaleSliderValue s"
  "shadowSliderValue (setLoadingState b s) = shadowSliderValue s"
  "placementSelectValue (setLoadingState b s) = placementSelectValue s"
  by (simp_all add: setLoadingState_def checkFormValidity_def Let_def)

lemma showLoadingPlaceholders_frame:
  "history (showLoadingPlaceholders s) = history s"
  "currentGeneratedSources (showLoadingPlaceholders s) = currentGeneratedSources s"
  "originalPhotoSrc (showLoadingPlaceholders s) = originalPhotoSrc s"
  "calls (showLoadingPlaceholders s) = calls s"
  "alerts (showLoadingPlaceholders s) = alerts s"
  "productFile (showLoadingPlaceholders s) = productFile s"
  "photoFile (showLoadingPlaceholders s) = photoFile s"
  "scaleSliderValue (showLoadingPlaceholders s) = scaleSliderValue s"
  "shadowSliderValue (showLoadingPlaceholders s) = shadowSliderValue s"
  "placementSelectValue (showLoadingPlaceholders s) = placementSelectValue s"
  by (simp_all add: showLoadingPlaceholders_def)

lemma catchBlock_frame:
  "history (catchBlock e s) = history s"
  "currentGeneratedSources (catchBlock e s) = currentGeneratedSources s"
  "originalPhotoSrc (catchBlock e s) = originalPhotoSrc s"
  "calls (catchBlock e s) = calls s"
  by (simp_all add: catchBlock_def alert_def)

lemma finallyBlock_frame:
  "history (finallyBlock s) = history s"
  "currentGeneratedSources (finallyBlock s) = currentGeneratedSources s"
  "originalPhotoSrc (finallyBlock s) = originalPhotoSrc s"
  "calls (finallyBlock s) = calls s"
  "generateDisabled (finallyBlock s) = (\<not> (productFile s \<noteq> None \<and> photoFile s \<noteq> None))"
  "comparisonLoading (finallyBlock s) = False"
  by (simp_all add: finallyBlock_def hide_frame setLoadingState_frame)
     (simp_all add: hideLoadingPlaceholders_def setLoadingState_def checkFormValidity_def)

lemma promptFor_cong:
  "scaleSliderValue s = scaleSliderValue s' \<Longrightarrow>
   shadowSliderValue s = shadowSliderValue s' \<Longrightarrow>
   placementSelectValue s = placementSelectValue s' \<Longrightarrow> promptFor pg s = promptFor pg s'"
  by (simp add: promptFor_def split: page.splits)

lemma handleResponse_error_frame:
  assumes "handleResponse resp s = (r, s')" and "r \<noteq> Inr (Inr ())"
  shows "history s' = history s \<and> currentGeneratedSources s' = currentGeneratedSources s
         \<and> (\<exists>x. r = Inr (Inl (NoImageReturned x)))
         \<and> (imageParts resp = None \<or> imageParts resp = Some [])"
proof -
  have nb: "handleResponse resp s = noImageBranch resp (hideLoadingPlaceholders s)"
       "imageParts resp = None \<or> imageParts resp = Some []"
    using assms by (auto simp add: handleResponse_char split: option.splits if_splits)
  have "s' = snd (noImageBranch resp (hideLoadingPlaceholders s))"
       "r = fst (noImageBranch resp (hideLoadingPlaceholders s))"
    using assms(1) nb by simp_all
  then show ?thesis
    using nb(2) by (simp add: noImageBranch_frame hide_frame noImageBranch_fst)
qed

lemma handleResponse_calls:
  "calls (snd (handleResponse resp s)) = calls s"
  by (simp add: handleResponse_char noImageBranch_frame hide_frame updateHistory_frame
      showResult_frame split: option.splits)

lemma handleResponse_success:
  assumes "handleResponse resp s = (Inr (Inr ()), s')"
  shows "\<exists>ips. imageParts resp = Some ips \<and> ips \<noteq> []
          \<and> history s' =
              history (updateHistory
                \<lparr>original = originalPhotoSrc s,
                 variants = map (\<lambda>b. ''data:'' @ blobMimeType b @ '';base64,'' @ blobData b)
                              (List.map_filter inlineData ips)\<rparr> s)
          \<and> length (List.map_filter inlineData ips) = length ips"
proof (cases "imageParts resp")
  case None
  then show ?thesis using assms by (simp add: handleResponse_char noImageBranch_def Let_def)
next
  case (Some ips)
  have ne: "ips \<noteq> []"
    using assms Some by (auto simp add: handleResponse_char noImageBranch_def Let_def)
  have "s' = snd (handleResponse resp s)" using assms by simp
  then have "history s' = history (updateHistory
                \<lparr>original = originalPhotoSrc s,
                 variants = map (\<lambda>b. ''data:'' @ blobMimeType b @ '';base64,'' @ blobData b)
                              (List.map_filter inlineData ips)\<rparr> s)"
    using Some ne by (simp add: handleResponse_char history_updateHistory hide_frame)
  then show ?thesis
    using Some ne generatedSources_of_imageParts [OF Some] by simp
qed

text \<open>The request the handler builds once both files are read.\<close>

lemma tryBlock_read:
  assumes "productFile s = Some pf" and "photoFile s = Some sf"
    and "readAsDataURL pf = Some pu" and "readAsDataURL sf = Some su"
    and "req = \<lparr>model = ''gemini-2.5-flash-image-preview'',
                contentsParts =
                  [InlineData \<lparr>mimeType = fileType pf,
                               data = js_index (js_split CHR '','' pu) 1, url = pu\<rparr>,
                   InlineData \<lparr>mimeType = fileType sf,
                               data = js_index (js_split CHR '','' su) 1, url = su\<rparr>,
                   Text (promptFor pg s)],
                responseModalities = [IMAGE, TEXT]\<rparr>"
  shows "tryBlock pg net s =
     (case net req of
        Inl msg \<Rightarrow> (Inl (DispatchFailed msg),
                    s\<lparr>originalPhotoSrc := su, calls := calls s @ [req]\<rparr>)
      | Inr resp \<Rightarrow> handleResponse resp (s\<lparr>originalPhotoSrc := su, calls := calls s @ [req]\<rparr>))"
proof -
  have p: "promptFor pg (s\<lparr>originalPhotoSrc := su\<rparr>) = promptFor pg s"
    by (rule promptFor_cong) simp_all
  show ?thesis
    using assms(1-4) unfolding assms(5)
    by (simp add: tryBlock_def fileToGenerativePart_def Let_def p split: sum.splits)
qed

lemma tryBlock_unread:
  assumes "productFile s = Some pf" and "photoFile s = Some sf"
    and "readAsDataURL pf = None \<or> readAsDataURL sf = None"
  shows "tryBlock pg net s = (Inl FileReadFailed, s)"
  using assms by (auto simp add: tryBlock_def fileToGenerativePart_def split: option.splits)

lemma ixTryBlock_read:
  assumes "ixProductFile s = Some pf" and "ixPhotoFile s = Some sf"
    and "readAsDataURL pf = Some pu" and "readAsDataURL sf = Some su"
    and "req = \<lparr>model = ''gemini-2.5-flash-image-preview'',
                contentsParts =
                  [InlineData \<lparr>ixMimeType = fileType pf,
                               ixData = js_index (js_split CHR '','' pu) 1\<rparr>,
                   InlineData \<lparr>ixMimeType = fileType sf,
                               ixData = js_index (js_split CHR '','' su) 1\<rparr>,
                   Text (prompt_index (ixPlacementSelectValue s) (ixScaleSliderValue s)
                           (ixShadowSliderValue s))],
                responseModalities = [IMAGE, TEXT]\<rparr>"
  shows "ixTryBlock net s =
     (case net req of
        Inl msg \<Rightarrow> (Inl (DispatchFailed msg), s\<lparr>ixCalls := ixCalls s @ [req]\<rparr>)
      | Inr resp \<Rightarrow>
          (Inr (fst (ixHandleResponse resp (s\<lparr>ixCalls := ixCalls s @ [req]\<rparr>))),
           snd (ixHandleResponse resp (s\<lparr>ixCalls := ixCalls s @ [req]\<rparr>))))"
  using assms(1-4) unfolding assms(5)
  by (simp add: ixTryBlock_def ixFileToGenerativePart_def Let_def split: sum.splits prod.splits)

lemma ixTryBlock_unread:
  assumes "ixProductFile s = Some pf" and "ixPhotoFile s = Some sf"
    and "readAsDataURL pf = None \<or> readAsDataURL sf = None"
  shows "ixTryBlock net s = (Inl FileReadFailed, s)"
  using assms by (auto simp add: ixTryBlock_def ixFileToGenerativePart_def split: option.splits)

lemma ixAppendImages_calls: "ixCalls (ixAppendImages ps s) = ixCalls s"
  by (induction ps arbitrary: s) (simp_all split: option.splits)

lemma ixHandleResponse_calls: "ixCalls (snd (ixHandleResponse resp s)) = ixCalls s"
  by (simp add: ixHandleResponse_def Let_def ixAlert_def ixAppendImages_calls
      split: option.splits)

lemma ixSetLoadingState_calls: "ixCalls (ixSetLoadingState b s) = ixCalls s"
  by (simp add: ixSetLoadingState_def ixCheckFormValidity_def Let_def)

lemma ixCatchBlock_calls: "ixCalls (ixCatchBlock e s) = ixCalls s"
  by (simp add: ixCatchBlock_def ixAlert_def)

lemma generateClick_calls_read:
  assumes "productFile s = Some pf" and "photoFile s = Some sf" and "truthy (apiKey s)"
    and "readAsDataURL pf = Some pu" and "readAsDataURL sf = Some su"
  shows "calls (snd (generateClick pg net s)) =
      calls s @
      [\<lparr>model = ''gemini-2.5-flash-image-preview'',
        contentsParts =
          [InlineData \<lparr>mimeType = fileType pf,
                       data = js_index (js_split CHR '','' pu) 1, url = pu\<rparr>,
           InlineData \<lparr>mimeType = fileType sf,
                       data = js_index (js_split CHR '','' su) 1, url = su\<rparr>,
           Text (promptFor pg s)],
        responseModalities = [IMAGE, TEXT]\<rparr>]"
proof -
  let ?s1 = "showLoadingPlaceholders (setLoadingState True s)"
  let ?req = "\<lparr>model = ''gemini-2.5-flash-image-preview'',
        contentsParts =
          [InlineData \<lparr>mimeType = fileType pf,
                       data = js_index (js_split CHR '','' pu) 1, url = pu\<rparr>,
           InlineData \<lparr>mimeType = fileType sf,
                       data = js_index (js_split CHR '','' su) 1, url = su\<rparr>,
           Text (promptFor pg ?s1)],
        responseModalities = [IMAGE, TEXT]\<rparr>"
  have p: "promptFor pg ?s1 = promptFor pg s"
    by (rule promptFor_cong)
       (simp_all add: showLoadingPlaceholders_frame setLoadingState_frame)
  have f: "productFile ?s1 = Some pf" "photoFile ?s1 = Some sf"
    using assms(1,2) by (simp_all add: showLoadingPlaceholders_frame setLoadingState_frame)
  have c: "calls ?s1 = calls s"
    by (simp add: showLoadingPlaceholders_frame setLoadingState_frame)
  note tb = tryBlock_read [OF f assms(4,5) refl, of pg net]
  have "calls (snd (tryBlock pg net ?s1)) = calls s @ [?req]"
    by (simp add: tb c handleResponse_calls split: sum.splits)
  moreover have "calls (snd (generateClick pg net s)) = calls (snd (tryBlock pg net ?s1))"
    using assms(1-3)
    by (simp add: generateClick_def Let_def finallyBlock_frame catchBlock_frame
        split: prod.splits sum.splits)
  ultimately show ?thesis by (simp add: p)
qed

lemma ixGenerateClick_calls_read:
  assumes "ixProductFile t = Some pf" and "ixPhotoFile t = Some sf" and "truthy (ixApiKey t)"
    and "readAsDataURL pf = Some pu" and "readAsDataURL sf = Some su"
  shows "ixCalls (snd (ixGenerateClick inet t)) =
      ixCalls t @
      [\<lparr>model = ''gemini-2.5-flash-image-preview'',
        contentsParts =
          [InlineData \<lparr>ixMimeType = fileType pf,
                       ixData = js_index (js_split CHR '','' pu) 1\<rparr>,
           InlineData \<lparr>ixMimeType = fileType sf,
                       ixData = js_index (js_split CHR '','' su) 1\<rparr>,
           Text (prompt_index (ixPlacementSelectValue t) (ixScaleSliderValue t)
                   (ixShadowSliderValue t))],
        responseModalities = [IMAGE, TEXT]\<rparr>]"
proof -
  let ?s1 = "(ixSetLoadingState True t)\<lparr>ixOutputGrid := [], ixOutputDisplay := ''none''\<rparr>"
  have f: "ixProductFile ?s1 = Some pf" "ixPhotoFile ?s1 = Some sf"
    using assms(1,2) by (simp_all add: ixSetLoadingState_def Let_def)
  have v: "ixPlacementSelectValue ?s1 = ixPlacementSelectValue t"
      "ixScaleSliderValue ?s1 = ixScaleSliderValue t"
      "ixShadowSliderValue ?s1 = ixShadowSliderValue t" "ixCalls ?s1 = ixCalls t"
    by (simp_all add: ixSetLoadingState_def Let_def)
  note tb = ixTryBlock_read [OF f assms(4,5) refl, of inet]
  have "ixCalls (snd (ixTryBlock inet ?s1)) = ixCalls t @
      [\<lparr>model = ''gemini-2.5-flash-image-preview'',
        contentsParts =
          [InlineData \<lparr>ixMimeType = fileType pf,
                       ixData = js_index (js_split CHR '','' pu) 1\<rparr>,
           InlineData \<lparr>ixMimeType = fileType sf,
                       ixData = js_index (js_split CHR '','' su) 1\<rparr>,
           Text (prompt_index (ixPlacementSelectValue t) (ixScaleSliderValue t)
                   (ixShadowSliderValue t))],
        responseModalities = [IMAGE, TEXT]\<rparr>]"
    unfolding tb v by (simp add: ixHandleResponse_calls split: sum.splits)
  moreover have "ixCalls (snd (ixGenerateClick inet t)) = ixCalls (snd (ixTryBlock inet ?s1))"
    using assms(1-3)
    by (simp add: ixGenerateClick_def Let_def ixSetLoadingState_calls ixCatchBlock_calls
        split: prod.splits sum.splits)
  ultimately show ?thesis by simp
qed

lemma generateClick_guard:
  assumes "productFile s = None \<or> photoFile s = None \<or> \<not> truthy (apiKey s)"
  shows "generateClick pg net s =
           (Inl MissingInput, alert ''Please provide both product and scene photos.'' s)"
  using assms by (auto simp add: generateClick_def)

lemma generateClick_started:
  assumes "productFile s = Some pf" and "photoFile s = Some sf" and "truthy (apiKey s)"
  shows "generateClick pg net s =
     (case tryBlock pg net (showLoadingPlaceholders (setLoadingState True s)) of
        (Inl e, s2) \<Rightarrow> (Inl ServiceFailure, finallyBlock (catchBlock e s2))
      | (Inr r, s2) \<Rightarrow> (r, finallyBlock s2))"
  using assms by (simp add: generateClick_def Let_def)

lemma generateClick_unread:
  assumes "productFile s = Some pf" and "photoFile s = Some sf" and "truthy (apiKey s)"
    and "readAsDataURL pf = None \<or> readAsDataURL sf = None"
  shows "generateClick pg net s =
     (Inl ServiceFailure,
      finallyBlock (catchBlock FileReadFailed (showLoadingPlaceholders (setLoadingState True s))))"
proof -
  let ?s1 = "showLoadingPlaceholders (setLoadingState True s)"
  have f: "productFile ?s1 = Some pf" "photoFile ?s1 = Some sf"
    using assms(1,2) by (simp_all add: showLoadingPlaceholders_frame setLoadingState_frame)
  show ?thesis
    by (simp add: generateClick_started [OF assms(1-3)] tryBlock_unread [OF f assms(4)])
qed

text \<open>The state in which the awaited call is made, and the request it carries.\<close>

lemma generateClick_read:
  assumes "productFile s = Some pf" and "photoFile s = Some sf" and "truthy (apiKey s)"
    and "readAsDataURL pf = Some pu" and "readAsDataURL sf = Some su"
    and "req = \<lparr>model = ''gemini-2.5-flash-image-preview'',
                contentsParts =
                  [InlineData \<lparr>mimeType = fileType pf,
                               data = js_index (js_split CHR '','' pu) 1, url = pu\<rparr>,
                   InlineData \<lparr>mimeType = fileType sf,
                               data = js_index (js_split CHR '','' su) 1, url = su\<rparr>,
                   Text (promptFor pg s)],
                responseModalities = [IMAGE, TEXT]\<rparr>"
    and "s2 = (showLoadingPlaceholders (setLoadingState True s))
                \<lparr>originalPhotoSrc := su, calls := calls s @ [req]\<rparr>"
  shows "generateClick pg net s =
     (case net req of
        Inl msg \<Rightarrow> (Inl ServiceFailure, finallyBlock (catchBlock (DispatchFailed msg) s2))
      | Inr resp \<Rightarrow>
          (case handleResponse resp s2 of
             (Inl e, s3) \<Rightarrow> (Inl ServiceFailure, finallyBlock (catchBlock e s3))
           | (Inr r, s3) \<Rightarrow> (r, finallyBlock s3)))"
proof -
  let ?s1 = "showLoadingPlaceholders (setLoadingState True s)"
  have p: "promptFor pg ?s1 = promptFor pg s"
    by (rule promptFor_cong)
       (simp_all add: showLoadingPlaceholders_frame setLoadingState_frame)
  have f: "productFile ?s1 = Some pf" "photoFile ?s1 = Some sf"
    using assms(1,2) by (simp_all add: showLoadingPlaceholders_frame setLoadingState_frame)
  have c: "calls ?s1 = calls s"
    by (simp add: showLoadingPlaceholders_frame setLoadingState_frame)
  show ?thesis
    unfolding generateClick_started [OF assms(1-3)] tryBlock_read [OF f assms(4,5) refl]
      p c assms(7) assms(6)
    by (simp split: sum.splits)
qed

lemma generateClick_error_frame:
  assumes "generateClick pg net s = (Inl e, s')"
  shows "history s' = history s \<and> currentGeneratedSources s' = currentGeneratedSources s"
proof (cases "productFile s = None \<or> photoFile s = None \<or> \<not> truthy (apiKey s)")
  case True
  then show ?thesis
    using assms by (auto simp add: generateClick_guard alert_def)
next
  case False
  then obtain pf sf where g: "productFile s = Some pf" "photoFile s = Some sf" "truthy (apiKey s)"
    by auto
  show ?thesis
  proof (cases "readAsDataURL pf = None \<or> readAsDataURL sf = None")
    case True
    show ?thesis
      using assms unfolding generateClick_unread [OF g True]
      by (auto simp add: finallyBlock_frame catchBlock_frame showLoadingPlaceholders_frame
          setLoadingState_frame)
  next
    case False
    then obtain pu su where r: "readAsDataURL pf = Some pu" "readAsDataURL sf = Some su"
      by auto
    define req where "req = \<lparr>model = ''gemini-2.5-flash-image-preview'',
                contentsParts =
                  [InlineData \<lparr>mimeType = fileType pf,
                               data = js_index (js_split CHR '','' pu) 1, url = pu\<rparr>,
                   InlineData \<lparr>mimeType = fileType sf,
                               data = js_index (js_split CHR '','' su) 1, url = su\<rparr>,
                   Text (promptFor pg s)],
                responseModalities = [IMAGE, TEXT]\<rparr>"
    define s2 where "s2 = (showLoadingPlaceholders (setLoadingState True s))
                \<lparr>originalPhotoSrc := su, calls := calls s @ [req]\<rparr>"
    have s2: "history s2 = history s" "currentGeneratedSources s2 = currentGeneratedSources s"
      by (simp_all add: s2_def showLoadingPlaceholders_frame setLoadingState_frame)
    note gc = generateClick_read [OF g r req_def s2_def, of net]
    show ?thesis
    proof (cases "net req")
      case (Inl msg)
      then show ?thesis
        using assms gc by (auto simp add: finallyBlock_frame catchBlock_frame s2)
    next
      case (Inr resp)
      obtain r3 s3 where h: "handleResponse resp s2 = (r3, s3)"
        by (cases "handleResponse resp s2")
      have ne: "r3 \<noteq> Inr (Inr ())"
        using assms gc Inr h by (auto split: sum.splits)
      note fr = handleResponse_error_frame [OF h ne]
      show ?thesis
        using assms gc Inr h fr
        by (auto simp add: finallyBlock_frame catchBlock_frame s2 split: sum.splits)
    qed
  qed
qed

lemma finallyBlock_enabled:
  "productFile s = Some pf \<Longrightarrow> photoFile s = Some sf \<Longrightarrow>
   \<not> generateDisabled (finallyBlock s) \<and> \<not> comparisonLoading (finallyBlock s)
   \<and> buttonText (finallyBlock s) = ''Generate'' \<and> spinnerDisplay (finallyBlock s) = ''none''"
  by (simp add: finallyBlock_def hideLoadingPlaceholders_def setLoadingState_def
      checkFormValidity_def)

lemma files_kept:
  "productFile (catchBlock e s) = productFile s" "photoFile (catchBlock e s) = photoFile s"
  "productFile (snd (noImageBranch resp s)) = productFile s"
  "photoFile (snd (noImageBranch resp s)) = photoFile s"
  "productFile (hideLoadingPlaceholders s) = productFile s"
  "photoFile (hideLoadingPlaceholders s) = photoFile s"
  by (simp_all add: catchBlock_def alert_def noImageBranch_def Let_def
      hideLoadingPlaceholders_def)

lemma generateClick_error_cases:
  assumes "generateClick pg net s = (Inl e, s')"
  shows "(e = MissingInput \<and>
            s' = s\<lparr>alerts := alerts s @ [''Please provide both product and scene photos.'']\<rparr>)
       \<or> (e \<noteq> MissingInput
            \<and> \<not> generateDisabled s' \<and> \<not> comparisonLoading s'
            \<and> buttonText s' = ''Generate'' \<and> spinnerDisplay s' = ''none''
            \<and> (originalPhotoSrc s' = originalPhotoSrc s \<and> calls s' = calls s
                \<or> (\<exists>sf req. photoFile s = Some sf
                      \<and> readAsDataURL sf = Some (originalPhotoSrc s')
                      \<and> calls s' = calls s @ [req])))"
proof (cases "productFile s = None \<or> photoFile s = None \<or> \<not> truthy (apiKey s)")
  case True
  then show ?thesis
    using assms by (auto simp add: generateClick_guard alert_def)
next
  case False
  then obtain pf sf where g: "productFile s = Some pf" "photoFile s = Some sf" "truthy (apiKey s)"
    by auto
  let ?s1 = "showLoadingPlaceholders (setLoadingState True s)"
  have f1: "productFile ?s1 = Some pf" "photoFile ?s1 = Some sf"
    using g by (simp_all add: showLoadingPlaceholders_frame setLoadingState_frame)
  show ?thesis
  proof (cases "readAsDataURL pf = None \<or> readAsDataURL sf = None")
    case True
    have fc: "productFile (catchBlock FileReadFailed ?s1) = Some pf"
         "photoFile (catchBlock FileReadFailed ?s1) = Some sf"
      using f1 by (simp_all add: files_kept)
    have "e = ServiceFailure" "s' = finallyBlock (catchBlock FileReadFailed ?s1)"
      using assms unfolding generateClick_unread [OF g True] by simp_all
    then show ?thesis
      using finallyBlock_enabled [OF fc]
      by (simp add: finallyBlock_frame catchBlock_frame showLoadingPlaceholders_frame
          setLoadingState_frame)
  next
    case False
    then obtain pu su where r: "readAsDataURL pf = Some pu" "readAsDataURL sf = Some su"
      by auto
    define req where "req = \<lparr>model = ''gemini-2.5-flash-image-preview'',
                contentsParts =
                  [InlineData \<lparr>mimeType = fileType pf,
                               data = js_index (js_split CHR '','' pu) 1, url = pu\<rparr>,
                   InlineData \<lparr>mimeType = fileType sf,
                               data = js_index (js_split CHR '','' su) 1, url = su\<rparr>,
                   Text (promptFor pg s)],
                responseModalities = [IMAGE, TEXT]\<rparr>"
    define s2 where "s2 = ?s1\<lparr>originalPhotoSrc := su, calls := calls s @ [req]\<rparr>"
    have s2: "originalPhotoSrc s2 = su" "calls s2 = calls s @ [req]"
      "productFile s2 = Some pf" "photoFile s2 = Some sf"
      using f1 by (simp_all add: s2_def)
    note gc = generateClick_read [OF g r req_def s2_def, of net]
    have goal: "e \<noteq> MissingInput
            \<and> \<not> generateDisabled s' \<and> \<not> comparisonLoading s'
            \<and> buttonText s' = ''Generate'' \<and> spinnerDisplay s' = ''none''
            \<and> originalPhotoSrc s' = su \<and> calls s' = calls s @ [req]"
    proof (cases "net req")
      case (Inl msg)
      have fc: "productFile (catchBlock (DispatchFailed msg) s2) = Some pf"
         "photoFile (catchBlock (DispatchFailed msg) s2) = Some sf"
        using s2 by (simp_all add: files_kept)
      have "e = ServiceFailure" "s' = finallyBlock (catchBlock (DispatchFailed msg) s2)"
        using assms gc Inl by simp_all
      then show ?thesis
        using finallyBlock_enabled [OF fc]
        by (simp add: finallyBlock_frame catchBlock_frame s2)
    next
      case (Inr resp)
      obtain r3 s3 where h: "handleResponse resp s2 = (r3, s3)"
        by (cases "handleResponse resp s2")
      have ne: "r3 \<noteq> Inr (Inr ())"
        using assms gc Inr h by (auto split: sum.splits)
      obtain x where x: "r3 = Inr (Inl (NoImageReturned x))"
        using handleResponse_error_frame [OF h ne] by blast
      have nb: "handleResponse resp s2 = noImageBranch resp (hideLoadingPlaceholders s2)"
        using handleResponse_error_frame [OF h ne] by (simp add: handleResponse_no_image)
      have s3: "s3 = snd (noImageBranch resp (hideLoadingPlaceholders s2))"
        using h nb by simp
      have fc: "productFile s3 = Some pf" "photoFile s3 = Some sf"
        "originalPhotoSrc s3 = su" "calls s3 = calls s @ [req]"
        using s2 by (simp_all add: s3 files_kept noImageBranch_frame hide_frame)
      have "e = NoImageReturned x" "s' = finallyBlock s3"
        using assms gc Inr h x by simp_all
      then show ?thesis
        using finallyBlock_enabled [OF fc(1,2)] fc(3,4)
        by (simp add: finallyBlock_frame)
    qed
    show ?thesis
      using goal g(2) r(2) by auto
  qed
qed

lemma generateClick_success:
  assumes "generateClick pg net s = (Inr u, s')"
  shows "\<exists>req resp ips sf su. net req = Inr resp \<and> imageParts resp = Some ips \<and> ips \<noteq> []
          \<and> photoFile s = Some sf \<and> readAsDataURL sf = Some su
          \<and> length (List.map_filter inlineData ips) = length ips
          \<and> history s' =
              history (updateHistory
                \<lparr>original = su,
                 variants = map (\<lambda>b. ''data:'' @ blobMimeType b @ '';base64,'' @ blobData b)
                              (List.map_filter inlineData ips)\<rparr> s)"
proof (cases "productFile s = None \<or> photoFile s = None \<or> \<not> truthy (apiKey s)")
  case True
  then show ?thesis
    using assms by (auto simp add: generateClick_guard)
next
  case False
  then obtain pf sf where g: "productFile s = Some pf" "photoFile s = Some sf" "truthy (apiKey s)"
    by auto
  show ?thesis
  proof (cases "readAsDataURL pf = None \<or> readAsDataURL sf = None")
    case True
    show ?thesis
      using assms unfolding generateClick_unread [OF g True] by simp
  next
    case False
    then obtain pu su where r: "readAsDataURL pf = Some pu" "readAsDataURL sf = Some su"
      by auto
    define req where "req = \<lparr>model = ''gemini-2.5-flash-image-preview'',
                contentsParts =
                  [InlineData \<lparr>mimeType = fileType pf,
                               data = js_index (js_split CHR '','' pu) 1, url = pu\<rparr>,
                   InlineData \<lparr>mimeType = fileType sf,
                               data = js_index (js_split CHR '','' su) 1, url = su\<rparr>,
                   Text (promptFor pg s)],
                responseModalities = [IMAGE, TEXT]\<rparr>"
    define s2 where "s2 = (showLoadingPlaceholders (setLoadingState True s))
                \<lparr>originalPhotoSrc := su, calls := calls s @ [req]\<rparr>"
    have s2: "originalPhotoSrc s2 = su" "history s2 = history s"
      by (simp_all add: s2_def showLoadingPlaceholders_frame setLoadingState_frame)
    note gc = generateClick_read [OF g r req_def s2_def, of net]
    show ?thesis
    proof (cases "net req")
      case (Inl msg)
      then show ?thesis using assms gc by simp
    next
      case (Inr resp)
      obtain r3 s3 where h: "handleResponse resp s2 = (r3, s3)"
        by (cases "handleResponse resp s2")
      have r3: "r3 = Inr (Inr ())" and s': "s' = finallyBlock s3"
        using assms gc Inr h by (auto split: sum.splits)
      obtain ips where ips: "imageParts resp = Some ips" "ips \<noteq> []"
          "length (List.map_filter inlineData ips) = length ips"
          "history s3 = history (updateHistory
                \<lparr>original = originalPhotoSrc s2,
                 variants = map (\<lambda>b. ''data:'' @ blobMimeType b @ '';base64,'' @ blobData b)
                              (List.map_filter inlineData ips)\<rparr> s2)"
        using handleResponse_success [OF h [unfolded r3]] by blast
      have "history s' = history (updateHistory
                \<lparr>original = su,
                 variants = map (\<lambda>b. ''data:'' @ blobMimeType b @ '';base64,'' @ blobData b)
                              (List.map_filter inlineData ips)\<rparr> s)"
        using ips(4) by (simp add: s' finallyBlock_frame s2 history_updateHistory)
      then show ?thesis
        using Inr ips(1-3) g(2) r(2) by blast
    qed
  qed
qed

lemma imageParts_candidates_cong:
  "imageParts (resp\<lparr>candidates := Some (c # cs)\<rparr>) = imageParts (resp\<lparr>candidates := Some [c]\<rparr>)"
  by (simp add: imageParts_def)

lemma handleResponse_cong:
  "imageParts r1 = imageParts r2 \<Longrightarrow> responseText r1 = responseText r2 \<Longrightarrow>
   handleResponse r1 s = handleResponse r2 s"
  by (simp add: handleResponse_def noImageBranch_def Let_def split: option.splits)

lemma ixHandleResponse_cong:
  "imageParts r1 = imageParts r2 \<Longrightarrow> responseText r1 = responseText r2 \<Longrightarrow>
   ixHandleResponse r1 s = ixHandleResponse r2 s"
  by (simp add: ixHandleResponse_def Let_def split: option.splits)

lemma ixHandleResponse_no_image:
  assumes "imageParts resp = None \<or> imageParts resp = Some []"
  shows "fst (ixHandleResponse resp t) =
           Inl (NoImageReturned (or_else (responseText resp) ''No text response.''))"
  using assms by (auto simp add: ixHandleResponse_def Let_def)

lemma length_history_updateHistory:
  "length (history s) \<le> 5 \<Longrightarrow> length (history (updateHistory r s)) \<le> 5"
  by (simp add: history_updateHistory_take)

lemma js_index_history_updateHistory:
  "js_index (history (updateHistory r s)) 0 = Some r"
  by (simp add: history_updateHistory butlast_conv_take take_Cons')

lemma js_index_historyChildren_updateHistory:
  "js_index (historyChildren (updateHistory r s)) 0 =
     Some (HistoryImg (js_index (variants r) 0) r)"
proof -
  obtain rest where h: "history (updateHistory r s) = r # rest"
    using js_index_history_updateHistory [of r s]
    by (cases "history (updateHistory r s)") simp_all
  show ?thesis
    by (simp add: historyChildren_updateHistory h)
qed

lemma historyItemClick_frame:
  "history (historyItemClick i s) = history s"
  "historyChildren (historyItemClick i s) = historyChildren s"
  "originalPhotoSrc (historyItemClick i s) = originalPhotoSrc s"
  "calls (historyItemClick i s) = calls s"
  "alerts (historyItemClick i s) = alerts s"
  by (simp_all add: historyItemClick_def showResult_frame showResult_def updateMainImage_def
      createThumbnails_def Let_def split: option.splits history_child.splits)

lemma ixGenerateClick_guard:
  assumes "ixProductFile t = None \<or> ixPhotoFile t = None \<or> \<not> truthy (ixApiKey t)"
  shows "ixCalls (snd (ixGenerateClick inet t)) = ixCalls t"
  using assms by (auto simp add: ixGenerateClick_def ixAlert_def)

lemma ixGenerateClick_unread:
  assumes "ixProductFile t = Some pf" and "ixPhotoFile t = Some sf" and "truthy (ixApiKey t)"
    and "readAsDataURL pf = None \<or> readAsDataURL sf = None"
  shows "ixCalls (snd (ixGenerateClick inet t)) = ixCalls t"
proof -
  let ?s1 = "(ixSetLoadingState True t)\<lparr>ixOutputGrid := [], ixOutputDisplay := ''none''\<rparr>"
  have f: "ixProductFile ?s1 = Some pf" "ixPhotoFile ?s1 = Some sf"
    using assms(1,2) by (simp_all add: ixSetLoadingState_def Let_def)
  have c: "ixCalls ?s1 = ixCalls t"
    by (simp add: ixSetLoadingState_def Let_def)
  show ?thesis
    using assms(1-3)
    by (simp add: ixGenerateClick_def Let_def ixTryBlock_unread [OF f assms(4)]
        ixSetLoadingState_calls ixCatchBlock_calls c)
qed

lemma generateClick_calls_cases:
  "calls (snd (generateClick pg net s)) = calls s
   \<or> (\<exists>a b. calls (snd (generateClick pg net s)) =
         calls s @
         [\<lparr>model = ''gemini-2.5-flash-image-preview'',
           contentsParts = [InlineData a, InlineData b, Text (promptFor pg s)],
           responseModalities = [IMAGE, TEXT]\<rparr>])"
proof (cases "productFile s = None \<or> photoFile s = None \<or> \<not> truthy (apiKey s)")
  case True
  then show ?thesis by (simp add: generateClick_guard alert_def)
next
  case False
  then obtain pf sf where g: "productFile s = Some pf" "photoFile s = Some sf" "truthy (apiKey s)"
    by auto
  show ?thesis
  proof (cases "readAsDataURL pf = None \<or> readAsDataURL sf = None")
    case True
    show ?thesis
      unfolding generateClick_unread [OF g True]
      by (simp add: finallyBlock_frame catchBlock_frame showLoadingPlaceholders_frame
          setLoadingState_frame)
  next
    case False
    then obtain pu su where r: "readAsDataURL pf = Some pu" "readAsDataURL sf = Some su"
      by auto
    show ?thesis
      using generateClick_calls_read [OF g r, of pg net] by blast
  qed
qed

lemma ixGenerateClick_calls_cases:
  "ixCalls (snd (ixGenerateClick inet t)) = ixCalls t
   \<or> (\<exists>a b. ixCalls (snd (ixGenerateClick inet t)) =
         ixCalls t @
         [\<lparr>model = ''gemini-2.5-flash-image-preview'',
           contentsParts =
             [InlineData a, InlineData b,
              Text (prompt_index (ixPlacementSelectValue t) (ixScaleSliderValue t)
                      (ixShadowSliderValue t))],
           responseModalities = [IMAGE, TEXT]\<rparr>])"
proof (cases "ixProductFile t = None \<or> ixPhotoFile t = None \<or> \<not> truthy (ixApiKey t)")
  case True
  then show ?thesis using ixGenerateClick_guard [OF True] by simp
next
  case False
  then obtain pf sf where
    g: "ixProductFile t = Some pf" "ixPhotoFile t = Some sf" "truthy (ixApiKey t)"
    by auto
  show ?thesis
  proof (cases "readAsDataURL pf = None \<or> readAsDataURL sf = None")
    case True
    show ?thesis
      using ixGenerateClick_unread [OF g True] by simp
  next
    case False
    then obtain pu su where r: "readAsDataURL pf = Some pu" "readAsDataURL sf = Some su"
      by auto
    show ?thesis
      using ixGenerateClick_calls_read [OF g r, of inet] by blast
  qed
qed

lemma set_history_updateHistory:
  "set (history (updateHistory r s)) \<subseteq> insert r (set (history s))"
proof (cases "5 \<le> length (history s)")
  case True
  have "set (butlast (r # history s)) \<subseteq> set (r # history s)"
    by (meson in_set_butlastD subsetI)
  then show ?thesis using True by (simp add: history_updateHistory)
next
  case False
  then show ?thesis by (simp add: history_updateHistory)
qed

lemma imageParts_all_text:
  assumes "candidates resp = Some (c # cs)" and "candidateContent c = Some ct"
    and "parts ct = Some ps" and "\<forall>p\<in>set ps. inlineData p = None"
  shows "imageParts resp = Some []"
  using assms by (simp add: imageParts_def)

lemma generateClick_history_cases:
  "history (snd (generateClick pg net s)) = history s
    \<or> (\<exists>req resp ips sf su.
          net req = Inr resp \<and> imageParts resp = Some ips \<and> ips \<noteq> []
        \<and> photoFile s = Some sf \<and> readAsDataURL sf = Some su
        \<and> length (List.map_filter inlineData ips) = length ips
        \<and> fst (generateClick pg net s) = Inr ()
        \<and> history (snd (generateClick pg net s)) =
            history (updateHistory
              \<lparr>original = su,
               variants = map (\<lambda>b. ''data:'' @ blobMimeType b @ '';base64,'' @ blobData b)
                            (List.map_filter inlineData ips)\<rparr> s))"
proof (cases "fst (generateClick pg net s)")
  case (Inl e)
  have "generateClick pg net s = (Inl e, snd (generateClick pg net s))"
    using Inl by (simp add: prod_eq_iff)
  then show ?thesis
    using generateClick_error_frame [of pg net s e "snd (generateClick pg net s)"] by blast
next
  case (Inr u)
  have g: "generateClick pg net s = (Inr u, snd (generateClick pg net s))"
    using Inr by (simp add: prod_eq_iff)
  have u: "fst (generateClick pg net s) = Inr ()"
    using Inr by simp
  obtain req resp ips sf su where "net req = Inr resp" "imageParts resp = Some ips" "ips \<noteq> []"
     "photoFile s = Some sf" "readAsDataURL sf = Some su"
     "length (List.map_filter inlineData ips) = length ips"
     "history (snd (generateClick pg net s)) =
            history (updateHistory
              \<lparr>original = su,
               variants = map (\<lambda>b. ''data:'' @ blobMimeType b @ '';base64,'' @ blobData b)
                            (List.map_filter inlineData ips)\<rparr> s)"
    using generateClick_success [OF g] by blast
  then show ?thesis
    using u by blast
qed

lemma updateHistory_variants_invariant:
  assumes "\<forall>h\<in>set (history s). variants h \<noteq> []" and "variants r \<noteq> []"
  shows "\<forall>h\<in>set (history (updateHistory r s)). variants h \<noteq> []"
proof
  fix h assume "h \<in> set (history (updateHistory r s))"
  then have "h = r \<or> h \<in> set (history s)"
    using set_history_updateHistory [of r s] by blast
  then show "variants h \<noteq> []"
    using assms by blast
qed

lemma generateClick_variants_invariant:
  assumes inv: "\<forall>h\<in>set (history s). variants h \<noteq> []"
  shows "\<forall>h\<in>set (history (snd (generateClick pg net s))). variants h \<noteq> []"
proof (cases "fst (generateClick pg net s)")
  case (Inl e)
  have "generateClick pg net s = (Inl e, snd (generateClick pg net s))"
    using Inl by (simp add: prod_eq_iff)
  then have "history (snd (generateClick pg net s)) = history s"
    using generateClick_error_frame [of pg net s e "snd (generateClick pg net s)"] by blast
  then show ?thesis using inv by simp
next
  case (Inr u)
  have g: "generateClick pg net s = (Inr u, snd (generateClick pg net s))"
    using Inr by (simp add: prod_eq_iff)
  obtain req resp ips sf su where "net req = Inr resp" "imageParts resp = Some ips"
     and ne: "ips \<noteq> []"
     and "photoFile s = Some sf" "readAsDataURL sf = Some su"
     and len: "length (List.map_filter inlineData ips) = length ips"
     and hs: "history (snd (generateClick pg net s)) =
            history (updateHistory
              \<lparr>original = su,
               variants = map (\<lambda>b. ''data:'' @ blobMimeType b @ '';base64,'' @ blobData b)
                            (List.map_filter inlineData ips)\<rparr> s)"
    using generateClick_success [OF g] by blast
  have "length (List.map_filter inlineData ips) \<noteq> 0"
    using ne len by simp
  then have v: "variants \<lparr>original = su,
               variants = map (\<lambda>b. ''data:'' @ blobMimeType b @ '';base64,'' @ blobData b)
                            (List.map_filter inlineData ips)\<rparr> \<noteq> []"
    by simp
  show ?thesis
    unfolding hs by (rule updateHistory_variants_invariant [OF inv v])
qed

lemma shown_images_frame:
  "beforeImageSrc (hideLoadingPlaceholders s) = beforeImageSrc s"
  "afterImageSrc (hideLoadingPlaceholders s) = afterImageSrc s"
  "beforeImageSrc (setLoadingState b s) = beforeImageSrc s"
  "afterImageSrc (setLoadingState b s) = afterImageSrc s"
  "beforeImageSrc (showLoadingPlaceholders s) = beforeImageSrc s"
  "afterImageSrc (showLoadingPlaceholders s) = afterImageSrc s"
  "beforeImageSrc (catchBlock e s) = beforeImageSrc s"
  "afterImageSrc (catchBlock e s) = afterImageSrc s"
  "beforeImageSrc (snd (noImageBranch resp s)) = beforeImageSrc s"
  "afterImageSrc (snd (noImageBranch resp s)) = afterImageSrc s"
  "beforeImageSrc (alert msg s) = beforeImageSrc s"
  "afterImageSrc (alert msg s) = afterImageSrc s"
  by (simp_all add: hideLoadingPlaceholders_def setLoadingState_def checkFormValidity_def
      showLoadingPlaceholders_def catchBlock_def noImageBranch_def alert_def Let_def)

lemma finallyBlock_images:
  "beforeImageSrc (finallyBlock s) = beforeImageSrc s"
  "afterImageSrc (finallyBlock s) = afterImageSrc s"
  by (simp_all add: finallyBlock_def shown_images_frame)

lemma generateClick_error_images:
  assumes "generateClick pg net s = (Inl e, s')"
  shows "beforeImageSrc s' = beforeImageSrc s \<and> afterImageSrc s' = afterImageSrc s"
proof (cases "productFile s = None \<or> photoFile s = None \<or> \<not> truthy (apiKey s)")
  case True
  then show ?thesis
    using assms by (auto simp add: generateClick_guard alert_def)
next
  case False
  then obtain pf sf where g: "productFile s = Some pf" "photoFile s = Some sf" "truthy (apiKey s)"
    by auto
  show ?thesis
  proof (cases "readAsDataURL pf = None \<or> readAsDataURL sf = None")
    case True
    show ?thesis
      using assms unfolding generateClick_unread [OF g True]
      by (auto simp add: finallyBlock_images shown_images_frame)
  next
    case False
    then obtain pu su where r: "readAsDataURL pf = Some pu" "readAsDataURL sf = Some su"
      by auto
    define req where "req = \<lparr>model = ''gemini-2.5-flash-image-preview'',
                contentsParts =
                  [InlineData \<lparr>mimeType = fileType pf,
                               data = js_index (js_split CHR '','' pu) 1, url = pu\<rparr>,
                   InlineData \<lparr>mimeType = fileType sf,
                               data = js_index (js_split CHR '','' su) 1, url = su\<rparr>,
                   Text (promptFor pg s)],
                responseModalities = [IMAGE, TEXT]\<rparr>"
    define s2 where "s2 = (showLoadingPlaceholders (setLoadingState True s))
                \<lparr>originalPhotoSrc := su, calls := calls s @ [req]\<rparr>"
    have s2: "beforeImageSrc s2 = beforeImageSrc s" "afterImageSrc s2 = afterImageSrc s"
      by (simp_all add: s2_def shown_images_frame)
    note gc = generateClick_read [OF g r req_def s2_def, of net]
    show ?thesis
    proof (cases "net req")
      case (Inl msg)
      then show ?thesis
        using assms gc by (auto simp add: finallyBlock_images shown_images_frame s2)
    next
      case (Inr resp)
      obtain r3 s3 where h: "handleResponse resp s2 = (r3, s3)"
        by (cases "handleResponse resp s2")
      have ne: "r3 \<noteq> Inr (Inr ())"
        using assms gc Inr h by (auto split: sum.splits)
      have nb: "handleResponse resp s2 = noImageBranch resp (hideLoadingPlaceholders s2)"
        using handleResponse_error_frame [OF h ne] by (simp add: handleResponse_no_image)
      have s3: "s3 = snd (noImageBranch resp (hideLoadingPlaceholders s2))"
        using h nb by simp
      obtain x where x: "r3 = Inr (Inl (NoImageReturned x))"
        using handleResponse_error_frame [OF h ne] by blast
      have "s' = finallyBlock s3"
        using assms gc Inr h x by simp
      then show ?thesis
        by (simp add: s3 finallyBlock_images shown_images_frame s2)
    qed
  qed
qed

lemma example_state_inputs:
  "productFile example_state = Some example_product"
  "photoFile example_state = Some example_photo"
  "truthy (apiKey example_state)"
  "readAsDataURL example_product = Some ''data:image/jpeg;base64,AAAA''"
  "readAsDataURL example_photo = Some ''data:image/png;base64,BBBB''"
  by (simp_all add: example_state_def example_product_def example_photo_def truthy_def)

lemma example_click_text_only:
  "fst (generateClick Composite text_only_net example_state) =
     Inl (NoImageReturned ''Here are the variants.'')"
  "originalPhotoSrc (snd (generateClick Composite text_only_net example_state)) =
     ''data:image/png;base64,BBBB''"
proof -
  define req where "req = \<lparr>model = ''gemini-2.5-flash-image-preview'',
                contentsParts =
                  [InlineData \<lparr>mimeType = fileType example_product,
                               data = js_index (js_split CHR '','' ''data:image/jpeg;base64,AAAA'') 1,
                               url = ''data:image/jpeg;base64,AAAA''\<rparr>,
                   InlineData \<lparr>mimeType = fileType example_photo,
                               data = js_index (js_split CHR '','' ''data:image/png;base64,BBBB'') 1,
                               url = ''data:image/png;base64,BBBB''\<rparr>,
                   Text (promptFor Composite example_state)],
                responseModalities = [IMAGE, TEXT]\<rparr>"
  define s2 where "s2 = (showLoadingPlaceholders (setLoadingState True example_state))
                \<lparr>originalPhotoSrc := ''data:image/png;base64,BBBB'',
                 calls := calls example_state @ [req]\<rparr>"
  note gc = generateClick_read [OF example_state_inputs req_def s2_def, of text_only_net]
  have n: "text_only_net req = Inr text_only_response"
    by (simp add: text_only_net_def)
  have ni: "imageParts text_only_response = None \<or> imageParts text_only_response = Some []"
    by (simp add: imageParts_def text_only_response_def text_part_def)
  have hr: "handleResponse text_only_response s2 =
      noImageBranch text_only_response (hideLoadingPlaceholders s2)"
    by (rule handleResponse_no_image [OF ni])
  have t: "or_else (responseText text_only_response) ''No text response.'' =
      ''Here are the variants.''"
    by (simp add: or_else_def text_only_response_def)
  have o: "originalPhotoSrc s2 = ''data:image/png;base64,BBBB''"
    by (simp add: s2_def)
  have g: "generateClick Composite text_only_net example_state =
      (Inl (NoImageReturned ''Here are the variants.''),
       finallyBlock (snd (noImageBranch text_only_response (hideLoadingPlaceholders s2))))"
    by (simp add: gc n hr noImageBranch_def Let_def t)
  show "fst (generateClick Composite text_only_net example_state) =
     Inl (NoImageReturned ''Here are the variants.'')"
    unfolding g by simp
  show "originalPhotoSrc (snd (generateClick Composite text_only_net example_state)) =
     ''data:image/png;base64,BBBB''"
    unfolding g by (simp add: finallyBlock_frame noImageBranch_frame hide_frame o)
qed

lemma example_click_failing:
  "fst (generateClick Composite failing_net example_state) = Inl ServiceFailure"
  "originalPhotoSrc (snd (generateClick Composite failing_net example_state)) =
     ''data:image/png;base64,BBBB''"
proof -
  define req where "req = \<lparr>model = ''gemini-2.5-flash-image-preview'',
                contentsParts =
                  [InlineData \<lparr>mimeType = fileType example_product,
                               data = js_index (js_split CHR '','' ''data:image/jpeg;base64,AAAA'') 1,
                               url = ''data:image/jpeg;base64,AAAA''\<rparr>,
                   InlineData \<lparr>mimeType = fileType example_photo,
                               data = js_index (js_split CHR '','' ''data:image/png;base64,BBBB'') 1,
                               url = ''data:image/png;base64,BBBB''\<rparr>,
                   Text (promptFor Composite example_state)],
                responseModalities = [IMAGE, TEXT]\<rparr>"
  define s2 where "s2 = (showLoadingPlaceholders (setLoadingState True example_state))
                \<lparr>originalPhotoSrc := ''data:image/png;base64,BBBB'',
                 calls := calls example_state @ [req]\<rparr>"
  note gc = generateClick_read [OF example_state_inputs req_def s2_def, of failing_net]
  have n: "failing_net req = Inl ''503 Service Unavailable''"
    by (simp add: failing_net_def)
  have o: "originalPhotoSrc s2 = ''data:image/png;base64,BBBB''"
    by (simp add: s2_def)
  have g: "generateClick Composite failing_net example_state =
      (Inl ServiceFailure,
       finallyBlock (catchBlock (DispatchFailed ''503 Service Unavailable'') s2))"
    by (simp add: gc n)
  show "fst (generateClick Composite failing_net example_state) = Inl ServiceFailure"
    unfolding g by simp
  show "originalPhotoSrc (snd (generateClick Composite failing_net example_state)) =
     ''data:image/png;base64,BBBB''"
    unfolding g by (simp add: finallyBlock_frame catchBlock_frame o)
qed

lemma sublist_append_right: "sublist xs zs \<Longrightarrow> sublist xs (ys @ zs)"
proof -
  assume "sublist xs zs"
  then obtain ps ss where "zs = ps @ xs @ ss"
    by (auto simp add: sublist_def)
  then have "ys @ zs = (ys @ ps) @ xs @ ss"
    by simp
  then show ?thesis
    unfolding sublist_def by blast
qed

lemma no_placeholder_without_dollar:
  "CHR ''$'' \<notin> set xs \<Longrightarrow> \<not> sublist ''${'' xs"
  using set_mono_sublist [of "''${''" xs] by auto

lemma promptFor_TryOn:
  "promptFor TryOn s = prompt_tryon (scaleSliderValue s)"
  by (simp add: promptFor_def)

lemma promptFor_Composite_lifestyle:
  "promptFor Composite (lifestylePresetClick s) =
     prompt_composite (placementSelectValue s) ''40'' ''0.6''"
  by (simp add: promptFor_def lifestylePresetClick_def applyPreset_def)

lemma prompt_tryon_40:
  "sublist ''scaled to approximately 40% of the person'' (prompt_tryon ''40'')"
  "\<not> sublist ''${'' (prompt_tryon ''40'')"
  "\<not> sublist ''0.6'' (prompt_tryon ''40'')"
  "sublist ''40%'' (prompt_tryon ''40'')"
  unfolding prompt_tryon_def by (simp_all add: sublist_Cons_right)

lemma sublist_after_placement:
  "sublist xs zs \<Longrightarrow> sublist xs (a @ b @ c @ d @ pl @ zs)"
  by (intro sublist_append_right)

lemma prompt_composite_40_06:
  "sublist ''Scale the product to about 40% of the photo'' (prompt_composite pl ''40'' ''0.6'')"
  "sublist ''shadows with an intensity of about 0.6 (where 0.0 is none''
     (prompt_composite pl ''40'' ''0.6'')"
proof -
  show "sublist ''Scale the product to about 40% of the photo''
      (prompt_composite pl ''40'' ''0.6'')"
    unfolding prompt_composite_def
    by (rule sublist_after_placement) (simp add: sublist_Cons_right)
  show "sublist ''shadows with an intensity of about 0.6 (where 0.0 is none''
     (prompt_composite pl ''40'' ''0.6'')"
    unfolding prompt_composite_def
    by (rule sublist_after_placement) (simp add: sublist_Cons_right)
qed

lemma prompt_composite_no_placeholder:
  "CHR ''$'' \<notin> set pl \<Longrightarrow> \<not> sublist ''${'' (prompt_composite pl ''40'' ''0.6'')"
  by (rule no_placeholder_without_dollar) (simp add: prompt_composite_def)

section \<open>Claims\<close>

text \<open>
  \<^bold>\<open>C1.\<close> When the first candidate's content holds the parts \<open>ps\<close>, of which \<open>K\<close> carry
  inline image data, the extraction returns exactly \<open>K\<close> image sources, in the order of
  the parts, each of the form \<^verbatim>\<open>data:<mimeType>;base64,<data>\<close>, when \<open>K > 0\<close>: they become
  the current result's variants on the pages with a history, and the images of the output
  grid on the page of \<^verbatim>\<open>index.tsx\<close>. When \<open>K = 0\<close> the request ends as \<open>NoImageReturned\<close>
  carrying the response's text, or \<^verbatim>\<open>No text response.\<close> when the text is absent (for
  \<^verbatim>\<open>response.text || ...\<close> an undefined and an empty text are both absent).
\<close>

theorem extractor_sources_or_no_image:
  assumes "candidates resp = Some (c # cs)"
    and "candidateContent c = Some ct"
    and "parts ct = Some ps"
    and "K = length (filter (\<lambda>part. inlineData part \<noteq> None) ps)"
    and "srcs = map (\<lambda>b. ''data:'' @ blobMimeType b @ '';base64,'' @ blobData b)
                  (List.map_filter inlineData ps)"
    and "explanation = (case responseText resp of
                          None \<Rightarrow> ''No text response.''
                        | Some t \<Rightarrow> if t = [] then ''No text response.'' else t)"
  shows "length srcs = K
    \<and> (0 < K \<longrightarrow>
          fst (handleResponse resp s) = Inr (Inr ())
        \<and> currentGeneratedSources (snd (handleResponse resp s)) = srcs
        \<and> js_index (history (snd (handleResponse resp s))) 0 =
            Some \<lparr>original = originalPhotoSrc s, variants = srcs\<rparr>
        \<and> fst (ixHandleResponse resp t) = Inr ()
        \<and> map gridSrc (ixOutputGrid (snd (ixHandleResponse resp t))) =
            map gridSrc (ixOutputGrid t) @ srcs)
    \<and> (K = 0 \<longrightarrow>
          fst (handleResponse resp s) = Inr (Inl (NoImageReturned explanation))
        \<and> alerts (snd (handleResponse resp s)) =
            alerts s @ [''Could not generate an image. Model response: '' @ explanation]
        \<and> fst (ixHandleResponse resp t) = Inl (NoImageReturned explanation)
        \<and> ixAlerts (snd (ixHandleResponse resp t)) =
            ixAlerts t @ [''Could not generate an image. Model response: '' @ explanation])"
proof -
  let ?ips = "filter (\<lambda>part. inlineData part \<noteq> None) ps"
  have ip: "imageParts resp = Some ?ips"
    using assms(1-3) by (simp add: imageParts_def)
  have gs: "generatedSources ?ips = Inr srcs"
    unfolding assms(5) by (rule generatedSources_filter)
  have len: "length srcs = K"
    using assms(4,5) by (simp add: length_map_filter)
  have ex: "explanation = or_else (responseText resp) ''No text response.''"
    using assms(6) by (simp add: or_else_def)
  have pos: "0 < K \<longrightarrow>
          fst (handleResponse resp s) = Inr (Inr ())
        \<and> currentGeneratedSources (snd (handleResponse resp s)) = srcs
        \<and> js_index (history (snd (handleResponse resp s))) 0 =
            Some \<lparr>original = originalPhotoSrc s, variants = srcs\<rparr>
        \<and> fst (ixHandleResponse resp t) = Inr ()
        \<and> map gridSrc (ixOutputGrid (snd (ixHandleResponse resp t))) =
            map gridSrc (ixOutputGrid t) @ srcs"
  proof
    assume k: "0 < K"
    then have ne: "?ips \<noteq> []" using assms(4) by auto
    have len': "length srcs = length ?ips" using len assms(4) by simp
    note hr = handleResponse_images [OF ip ne gs len', of s]
    have a: "fst (handleResponse resp s) = Inr (Inr ())"
      by (simp add: hr)
    have b: "currentGeneratedSources (snd (handleResponse resp s)) = srcs"
      by (simp add: hr updateHistory_def renderHistory_def showResult_def
          updateMainImage_def createThumbnails_def Let_def)
    have c: "js_index (history (snd (handleResponse resp s))) 0 =
            Some \<lparr>original = originalPhotoSrc s, variants = srcs\<rparr>"
      by (simp add: hr history_updateHistory hideLoadingPlaceholders_def butlast_conv_take
          take_Cons')
    have d: "fst (ixHandleResponse resp t) = Inr ()"
      using k assms(4) by (simp add: ixHandleResponse_def ip Let_def)
    have e: "map gridSrc (ixOutputGrid (snd (ixHandleResponse resp t))) =
            map gridSrc (ixOutputGrid t) @ srcs"
      using k assms(4,5)
      by (simp add: ixHandleResponse_def ip Let_def ixAppendImages_filter comp_def
          del: not_None_eq)
    show "fst (handleResponse resp s) = Inr (Inr ())
        \<and> currentGeneratedSources (snd (handleResponse resp s)) = srcs
        \<and> js_index (history (snd (handleResponse resp s))) 0 =
            Some \<lparr>original = originalPhotoSrc s, variants = srcs\<rparr>
        \<and> fst (ixHandleResponse resp t) = Inr ()
        \<and> map gridSrc (ixOutputGrid (snd (ixHandleResponse resp t))) =
            map gridSrc (ixOutputGrid t) @ srcs"
      using a b c d e by simp
  qed
  have zero: "K = 0 \<longrightarrow>
          fst (handleResponse resp s) = Inr (Inl (NoImageReturned explanation))
        \<and> alerts (snd (handleResponse resp s)) =
            alerts s @ [''Could not generate an image. Model response: '' @ explanation]
        \<and> fst (ixHandleResponse resp t) = Inl (NoImageReturned explanation)
        \<and> ixAlerts (snd (ixHandleResponse resp t)) =
            ixAlerts t @ [''Could not generate an image. Model response: '' @ explanation]"
  proof
    assume k: "K = 0"
    then have e: "?ips = []" using assms(4) by simp
    have hr: "handleResponse resp s = noImageBranch resp (hideLoadingPlaceholders s)"
      using ip e by (simp add: handleResponse_no_image)
    show "fst (handleResponse resp s) = Inr (Inl (NoImageReturned explanation))
        \<and> alerts (snd (handleResponse resp s)) =
            alerts s @ [''Could not generate an image. Model response: '' @ explanation]
        \<and> fst (ixHandleResponse resp t) = Inl (NoImageReturned explanation)
        \<and> ixAlerts (snd (ixHandleResponse resp t)) =
            ixAlerts t @ [''Could not generate an image. Model response: '' @ explanation]"
      using ip e
      by (simp add: hr noImageBranch_fst noImageBranch_alerts ex hideLoadingPlaceholders_def
          ixHandleResponse_def ixAlert_def Let_def)
  qed
  show ?thesis using len pos zero by simp
qed

theorem extractor_sources_or_no_image_witness:
  "fst (handleResponse example_response example_state) = Inr (Inr ())
   \<and> currentGeneratedSources (snd (handleResponse example_response example_state)) =
       [''data:image/png;base64,IMG1'', ''data:image/jpeg;base64,IMG2'']
   \<and> map gridSrc (ixOutputGrid (snd (ixHandleResponse example_response example_index_state))) =
       [''data:image/png;base64,IMG1'', ''data:image/jpeg;base64,IMG2'']
   \<and> fst (handleResponse text_only_response example_state) =
       Inr (Inl (NoImageReturned ''Here are the variants.''))"
proof -
  have a1: "candidates example_response =
      Some (\<lparr>candidateContent = Some \<lparr>parts = Some [image_part_1, text_part, image_part_2]\<rparr>\<rparr> # [])"
    by (simp add: example_response_def)
  have a2: "candidateContent \<lparr>candidateContent = Some \<lparr>parts = Some [image_part_1, text_part, image_part_2]\<rparr>\<rparr>
      = Some \<lparr>parts = Some [image_part_1, text_part, image_part_2]\<rparr>"
    by simp
  have a3: "parts \<lparr>parts = Some [image_part_1, text_part, image_part_2]\<rparr> =
      Some [image_part_1, text_part, image_part_2]"
    by simp
  have a4: "2 = length (filter (\<lambda>part. inlineData part \<noteq> None)
      [image_part_1, text_part, image_part_2])"
    by (simp add: image_part_1_def image_part_2_def text_part_def)
  have a5: "[''data:image/png;base64,IMG1'', ''data:image/jpeg;base64,IMG2''] =
      map (\<lambda>b. ''data:'' @ blobMimeType b @ '';base64,'' @ blobData b)
        (List.map_filter inlineData [image_part_1, text_part, image_part_2])"
    by (simp add: image_part_1_def image_part_2_def text_part_def List.map_filter_simps)
  have a6: "''Here are the variants.'' =
      (case responseText example_response of
         None \<Rightarrow> ''No text response.''
       | Some t \<Rightarrow> if t = [] then ''No text response.'' else t)"
    by (simp add: example_response_def)
  have b1: "candidates text_only_response =
      Some (\<lparr>candidateContent = Some \<lparr>parts = Some [text_part]\<rparr>\<rparr> # [])"
    by (simp add: text_only_response_def)
  have b2: "candidateContent \<lparr>candidateContent = Some \<lparr>parts = Some [text_part]\<rparr>\<rparr>
      = Some \<lparr>parts = Some [text_part]\<rparr>"
    by simp
  have b3: "parts \<lparr>parts = Some [text_part]\<rparr> = Some [text_part]"
    by simp
  have b4: "0 = length (filter (\<lambda>part. inlineData part \<noteq> None) [text_part])"
    by (simp add: text_part_def)
  have b5: "[] = map (\<lambda>b. ''data:'' @ blobMimeType b @ '';base64,'' @ blobData b)
        (List.map_filter inlineData [text_part])"
    by (simp add: text_part_def List.map_filter_simps)
  have b6: "''Here are the variants.'' =
      (case responseText text_only_response of
         None \<Rightarrow> ''No text response.''
       | Some t \<Rightarrow> if t = [] then ''No text response.'' else t)"
    by (simp add: text_only_response_def)
  have g: "ixOutputGrid example_index_state = []"
    by (simp add: example_index_state_def)
  note t1 = extractor_sources_or_no_image
    [OF a1 a2 a3 a4 a5 a6, of example_state example_index_state]
  note t2 = extractor_sources_or_no_image
    [OF b1 b2 b3 b4 b5 b6, of example_state example_index_state]
  from t1 have "fst (handleResponse example_response example_state) = Inr (Inr ())
   \<and> currentGeneratedSources (snd (handleResponse example_response example_state)) =
       [''data:image/png;base64,IMG1'', ''data:image/jpeg;base64,IMG2'']
   \<and> map gridSrc (ixOutputGrid (snd (ixHandleResponse example_response example_index_state))) =
        map gridSrc (ixOutputGrid example_index_state) @
       [''data:image/png;base64,IMG1'', ''data:image/jpeg;base64,IMG2'']"
    by simp
  moreover from t2 have "fst (handleResponse text_only_response example_state) =
       Inr (Inl (NoImageReturned ''Here are the variants.''))"
    by simp
  ultimately show ?thesis
    unfolding g by simp
qed

text \<open>
  \<^bold>\<open>C2.\<close> Recording results one after the other, from the empty history the page starts
  with, leaves the five most recent ones, newest first: the history never holds more than
  five entries, the result just recorded is at index 0, and after six recordings the first
  one is gone. The click handler, which records at most one result, keeps the bound.
\<close>

theorem history_keeps_five_newest_first:
  "length (history (foldl (\<lambda>s r. updateHistory r s) (s\<lparr>history := []\<rparr>) rs)) \<le> 5
 \<and> history (foldl (\<lambda>s r. updateHistory r s) (s\<lparr>history := []\<rparr>) rs) = take 5 (rev rs)
 \<and> js_index (history (updateHistory r s)) 0 = Some r
 \<and> history (foldl (\<lambda>s r. updateHistory r s) (s\<lparr>history := []\<rparr>) [r1, r2, r3, r4, r5, r6]) =
     [r6, r5, r4, r3, r2]
 \<and> (length (history s) \<le> 5 \<longrightarrow> length (history (snd (generateClick pg net s))) \<le> 5)"
proof -
  have e: "length (history (s\<lparr>history := []\<rparr>)) \<le> 5" by simp
  have a: "history (foldl (\<lambda>s r. updateHistory r s) (s\<lparr>history := []\<rparr>) rs) = take 5 (rev rs)"
    for rs
    using foldl_updateHistory [OF e, of rs] by simp
  have b: "length (history (snd (generateClick pg net s))) \<le> 5" if l: "length (history s) \<le> 5"
  proof (cases "generateClick pg net s")
    case (Pair r s')
    show ?thesis
    proof (cases r)
      case (Inl e)
      then show ?thesis
        using generateClick_error_frame [of pg net s e s'] Pair l by simp
    next
      case (Inr u)
      then obtain x where "history s' = history (updateHistory x s)"
        using generateClick_success [of pg net s u s'] Pair by blast
      then show ?thesis
        using Pair length_history_updateHistory [OF l, of x] by simp
    qed
  qed
  have c: "history (foldl (\<lambda>s r. updateHistory r s) (s\<lparr>history := []\<rparr>) [r1, r2, r3, r4, r5, r6]) =
     [r6, r5, r4, r3, r2]"
    unfolding a by simp
  show ?thesis
    using a b c js_index_history_updateHistory [of r s] by simp
qed

theorem history_keeps_five_newest_first_witness:
  "length (history example_state) \<le> 5
   \<and> length (history (snd (generateClick Composite image_net example_state))) \<le> 5
   \<and> history (foldl (\<lambda>s r. updateHistory r s) (example_state\<lparr>history := []\<rparr>)
        [example_item, example_item\<lparr>original := ''2''\<rparr>, example_item\<lparr>original := ''3''\<rparr>,
         example_item\<lparr>original := ''4''\<rparr>, example_item\<lparr>original := ''5''\<rparr>,
         example_item\<lparr>original := ''6''\<rparr>]) =
       [example_item\<lparr>original := ''6''\<rparr>, example_item\<lparr>original := ''5''\<rparr>,
        example_item\<lparr>original := ''4''\<rparr>, example_item\<lparr>original := ''3''\<rparr>,
        example_item\<lparr>original := ''2''\<rparr>]"
proof -
  have l: "length (history example_state) \<le> 5"
    by (simp add: example_state_def)
  show ?thesis
    using l history_keeps_five_newest_first
      [where s = example_state and pg = Composite and net = image_net
         and ?r1.0 = example_item and ?r2.0 = "example_item\<lparr>original := ''2''\<rparr>"
         and ?r3.0 = "example_item\<lparr>original := ''3''\<rparr>"
         and ?r4.0 = "example_item\<lparr>original := ''4''\<rparr>"
         and ?r5.0 = "example_item\<lparr>original := ''5''\<rparr>"
         and ?r6.0 = "example_item\<lparr>original := ''6''\<rparr>"]
    by blast
qed

text \<open>
  \<^bold>\<open>C3.\<close> When the product image is absent, or the scene photo is absent, or the API
  credential is unset (undefined or empty), the click on the generate button ends as
  \<open>MissingInput\<close>: the only effect is the alert with the user-facing message; the
  generation service is not called, the loading state is not entered and nothing else of
  the state changes. This holds for both pages of \<^verbatim>\<open>part_000\<close> and for \<^verbatim>\<open>index.tsx\<close>.
\<close>

theorem missing_input_rejected_before_dispatch:
  "(productFile s = None \<or> photoFile s = None \<or> apiKey s = None \<or> apiKey s = Some [] \<longrightarrow>
      generateClick pg net s =
        (Inl MissingInput,
         s\<lparr>alerts := alerts s @ [''Please provide both product and scene photos.'']\<rparr>)
    \<and> calls (snd (generateClick pg net s)) = calls s)
 \<and> (ixProductFile t = None \<or> ixPhotoFile t = None \<or> ixApiKey t = None \<or> ixApiKey t = Some [] \<longrightarrow>
      ixGenerateClick inet t =
        (Inl MissingInput,
         t\<lparr>ixAlerts := ixAlerts t @
            [''Please upload both a product and a photo, and ensure the API key is set.'']\<rparr>)
    \<and> ixCalls (snd (ixGenerateClick inet t)) = ixCalls t)"
  by (auto simp add: generateClick_def ixGenerateClick_def alert_def ixAlert_def truthy_def)

theorem missing_input_rejected_before_dispatch_witness:
  "generateClick Composite image_net (example_state\<lparr>photoFile := None\<rparr>) =
     (Inl MissingInput,
      example_state\<lparr>photoFile := None,
        alerts := [''Please provide both product and scene photos.'']\<rparr>)
   \<and> calls (snd (generateClick Composite image_net (example_state\<lparr>photoFile := None\<rparr>))) = []
   \<and> fst (ixGenerateClick index_image_net (example_index_state\<lparr>ixApiKey := Some []\<rparr>)) = Inl MissingInput
   \<and> ixCalls (snd (ixGenerateClick index_image_net (example_index_state\<lparr>ixApiKey := Some []\<rparr>))) = []"
proof -
  have a: "alerts example_state = []" "calls example_state = []"
    by (simp_all add: example_state_def)
  have b: "ixCalls example_index_state = []"
    by (simp add: example_index_state_def)
  show ?thesis
    using missing_input_rejected_before_dispatch
      [of "example_state\<lparr>photoFile := None\<rparr>" Composite image_net
          "example_index_state\<lparr>ixApiKey := Some []\<rparr>" index_image_net]
    by (simp add: a b)
qed

text \<open>
  \<^bold>\<open>C4\<close> (as stated, refuted). The page shows an earlier result whose original is
  \<^verbatim>\<open>...OLD0\<close>; a new photo is selected. The request ends as \<open>NoImageReturned\<close> (the
  service answers with text only), respectively as \<open>ServiceFailure\<close> (the call fails):
  in both cases \<^verbatim>\<open>originalPhotoSrc\<close> no longer holds the last good value but the data URL
  of the new photo, which the handler stores before it dispatches.
\<close>

theorem error_overwrites_originalPhotoSrc:
  "originalPhotoSrc example_state = ''data:image/png;base64,OLD0''
   \<and> fst (generateClick Composite text_only_net example_state) =
       Inl (NoImageReturned ''Here are the variants.'')
   \<and> originalPhotoSrc (snd (generateClick Composite text_only_net example_state)) =
       ''data:image/png;base64,BBBB''
   \<and> fst (generateClick Composite failing_net example_state) = Inl ServiceFailure
   \<and> originalPhotoSrc (snd (generateClick Composite failing_net example_state)) =
       ''data:image/png;base64,BBBB''
   \<and> originalPhotoSrc (snd (generateClick Composite failing_net example_state)) \<noteq>
       originalPhotoSrc example_state"
proof -
  have o: "originalPhotoSrc example_state = ''data:image/png;base64,OLD0''"
    by (simp add: example_state_def)
  show ?thesis
    unfolding example_click_text_only example_click_failing o by simp
qed

text \<open>
  \<^bold>\<open>C4\<close> (amended). A request that ends in any of the three error kinds is over (at
  most one call of the service was made, none for \<open>MissingInput\<close>; after the other two
  kinds the loading state is cleared and the button enabled again), and it leaves the
  history list and the current result's variant sources exactly as they were.
  \<^verbatim>\<open>originalPhotoSrc\<close> is left as it was by \<open>MissingInput\<close>; after the other two kinds it
  is either as it was or the data URL read from the request's photo. The sources of the
  before and after images on display are left as they were.
\<close>

theorem errors_keep_history_and_variants:
  assumes "generateClick pg net s = (Inl e, s')"
  shows "history s' = history s
    \<and> currentGeneratedSources s' = currentGeneratedSources s
    \<and> (e = MissingInput \<longrightarrow> originalPhotoSrc s' = originalPhotoSrc s \<and> calls s' = calls s)
    \<and> (originalPhotoSrc s' = originalPhotoSrc s
        \<or> (\<exists>sf. photoFile s = Some sf \<and> readAsDataURL sf = Some (originalPhotoSrc s')))
    \<and> length (calls s') \<le> Suc (length (calls s))
    \<and> (e \<noteq> MissingInput \<longrightarrow>
          \<not> generateDisabled s' \<and> \<not> comparisonLoading s'
        \<and> buttonText s' = ''Generate'' \<and> spinnerDisplay s' = ''none'')
    \<and> beforeImageSrc s' = beforeImageSrc s
    \<and> afterImageSrc s' = afterImageSrc s"
proof -
  note f = generateClick_error_frame [OF assms] generateClick_error_images [OF assms]
  from generateClick_error_cases [OF assms] show ?thesis
  proof
    assume m: "e = MissingInput \<and>
      s' = s\<lparr>alerts := alerts s @ [''Please provide both product and scene photos.'']\<rparr>"
    then have "originalPhotoSrc s' = originalPhotoSrc s" "calls s' = calls s"
      by simp_all
    then show ?thesis using f m by simp
  next
    assume n: "e \<noteq> MissingInput
            \<and> \<not> generateDisabled s' \<and> \<not> comparisonLoading s'
            \<and> buttonText s' = ''Generate'' \<and> spinnerDisplay s' = ''none''
            \<and> (originalPhotoSrc s' = originalPhotoSrc s \<and> calls s' = calls s
                \<or> (\<exists>sf req. photoFile s = Some sf
                      \<and> readAsDataURL sf = Some (originalPhotoSrc s')
                      \<and> calls s' = calls s @ [req]))"
    then have l: "length (calls s') \<le> Suc (length (calls s))"
      by auto
    have p: "originalPhotoSrc s' = originalPhotoSrc s
        \<or> (\<exists>sf. photoFile s = Some sf \<and> readAsDataURL sf = Some (originalPhotoSrc s'))"
      using n by blast
    show ?thesis using f n l p by simp
  qed
qed

theorem errors_keep_history_and_variants_witness:
  "fst (generateClick Composite text_only_net example_state) =
     Inl (NoImageReturned ''Here are the variants.'')
   \<and> history (snd (generateClick Composite text_only_net example_state)) = [example_item]
   \<and> currentGeneratedSources (snd (generateClick Composite text_only_net example_state)) =
       [''data:image/png;base64,VAR0'']
   \<and> \<not> generateDisabled (snd (generateClick Composite text_only_net example_state))
   \<and> fst (generateClick Composite text_only_net (example_state\<lparr>apiKey := None\<rparr>)) =
       Inl MissingInput
   \<and> originalPhotoSrc
       (snd (generateClick Composite text_only_net (example_state\<lparr>apiKey := None\<rparr>))) =
       ''data:image/png;base64,OLD0''"
proof -
  have g: "generateClick Composite text_only_net example_state =
      (Inl (NoImageReturned ''Here are the variants.''),
       snd (generateClick Composite text_only_net example_state))"
    using example_click_text_only(1) by (simp add: prod_eq_iff)
  have m1: "fst (generateClick Composite text_only_net (example_state\<lparr>apiKey := None\<rparr>)) =
       Inl MissingInput"
    by (simp add: generateClick_def truthy_def)
  have m: "generateClick Composite text_only_net (example_state\<lparr>apiKey := None\<rparr>) =
      (Inl MissingInput,
       snd (generateClick Composite text_only_net (example_state\<lparr>apiKey := None\<rparr>)))"
    using m1 by (simp add: prod_eq_iff)
  have h: "history example_state = [example_item]"
    "currentGeneratedSources example_state = [''data:image/png;base64,VAR0'']"
    "originalPhotoSrc (example_state\<lparr>apiKey := None\<rparr>) = ''data:image/png;base64,OLD0''"
    by (simp_all add: example_state_def)
  have a: "history (snd (generateClick Composite text_only_net example_state)) =
      history example_state
    \<and> currentGeneratedSources (snd (generateClick Composite text_only_net example_state)) =
      currentGeneratedSources example_state
    \<and> \<not> generateDisabled (snd (generateClick Composite text_only_net example_state))"
    using errors_keep_history_and_variants [OF g] by blast
  have b: "originalPhotoSrc
       (snd (generateClick Composite text_only_net (example_state\<lparr>apiKey := None\<rparr>))) =
      originalPhotoSrc (example_state\<lparr>apiKey := None\<rparr>)"
    using errors_keep_history_and_variants [OF m] by blast
  show ?thesis
    using a b m1 example_click_text_only(1) unfolding h by simp
qed

text \<open>
  \<^bold>\<open>C5.\<close> After a result \<open>r\<close> is recorded, whatever the history was, the entry at
  index 0 is \<open>r\<close>, the first image of the rendered history carries \<open>r\<close>, and selecting it
  shows \<open>r\<close> unchanged: the before image is \<open>r\<close>'s original, the current variants are
  \<open>r\<close>'s variants, and the stored entry is still \<open>r\<close>.
\<close>

theorem record_then_select_first_roundtrip:
  "js_index (history (updateHistory r s)) 0 = Some r
 \<and> js_index (historyChildren (updateHistory r s)) 0 =
     Some (HistoryImg (js_index (variants r) 0) r)
 \<and> historyItemClick 0 (updateHistory r s) = showResult r (updateHistory r s)
 \<and> beforeImageSrc (historyItemClick 0 (updateHistory r s)) = original r
 \<and> currentGeneratedSources (historyItemClick 0 (updateHistory r s)) = variants r
 \<and> js_index (history (historyItemClick 0 (updateHistory r s))) 0 = Some r"
proof -
  note c = js_index_historyChildren_updateHistory [of r s]
  have k: "historyItemClick 0 (updateHistory r s) = showResult r (updateHistory r s)"
    by (simp add: historyItemClick_def c)
  show ?thesis
    unfolding k
    by (simp add: c js_index_history_updateHistory showResult_frame)
qed

theorem record_then_select_first_roundtrip_witness:
  "beforeImageSrc (historyItemClick 0 (updateHistory example_item example_state)) =
     ''data:image/png;base64,OLD0''
   \<and> currentGeneratedSources (historyItemClick 0 (updateHistory example_item example_state)) =
     [''data:image/png;base64,VAR0'']"
proof -
  have i: "original example_item = ''data:image/png;base64,OLD0''"
    "variants example_item = [''data:image/png;base64,VAR0'']"
    by (simp_all add: example_item_def)
  have "beforeImageSrc (historyItemClick 0 (updateHistory example_item example_state)) =
     original example_item
   \<and> currentGeneratedSources (historyItemClick 0 (updateHistory example_item example_state)) =
     variants example_item"
    using record_then_select_first_roundtrip [of example_item example_state] by blast
  then show ?thesis unfolding i .
qed

text \<open>
  \<^bold>\<open>C6\<close> (as stated, refuted). With the scale slider at 40 and the shadow slider at 0.6,
  the prompt of the try-on page contains \<^verbatim>\<open>40%\<close> but not \<^verbatim>\<open>0.6\<close>: its template has
  the scale as its only placeholder.
\<close>

theorem tryon_prompt_lacks_shadow_value:
  "scaleSliderValue example_state = ''40''
   \<and> shadowSliderValue example_state = ''0.6''
   \<and> sublist ''40%'' (promptFor TryOn example_state)
   \<and> \<not> sublist ''0.6'' (promptFor TryOn example_state)"
proof -
  have v: "scaleSliderValue example_state = ''40''" "shadowSliderValue example_state = ''0.6''"
    by (simp_all add: example_state_def)
  show ?thesis
    unfolding promptFor_TryOn v using prompt_tryon_40(3,4) by simp
qed

text \<open>
  \<^bold>\<open>C6\<close> (amended). With the scale at 40, the prompt of the try-on page contains
  \<^verbatim>\<open>40%\<close> at the template's only placeholder (\<^verbatim>\<open>scaled to approximately 40% of the person\<close>)
  and no unresolved placeholder; it does not depend on the shadow or placement values, for
  which the try-on template has no placeholder. With scale 40 and shadow 0.6, as the
  lifestyle preset sets them, it is the prompt of the composite page of \<^verbatim>\<open>part_000\<close> that
  contains \<^verbatim>\<open>40%\<close> and \<^verbatim>\<open>0.6\<close> at the placeholders of its template, for every placement
  value, with no unresolved placeholder when the placement value contains no \<^verbatim>\<open>$\<close>.
\<close>

theorem prompt_substitutes_slider_values:
  "sublist ''scaled to approximately 40% of the person''
     (promptFor TryOn (s\<lparr>scaleSliderValue := ''40''\<rparr>))
 \<and> \<not> sublist ''${'' (promptFor TryOn (s\<lparr>scaleSliderValue := ''40''\<rparr>))
 \<and> promptFor TryOn (s\<lparr>scaleSliderValue := ''40'', shadowSliderValue := sh,
                        placementSelectValue := pl\<rparr>) =
     promptFor TryOn (s\<lparr>scaleSliderValue := ''40''\<rparr>)
 \<and> sublist ''Scale the product to about 40% of the photo''
     (promptFor Composite (lifestylePresetClick s))
 \<and> sublist ''shadows with an intensity of about 0.6 (where 0.0 is none''
     (promptFor Composite (lifestylePresetClick s))
 \<and> (CHR ''$'' \<notin> set (placementSelectValue s) \<longrightarrow>
      \<not> sublist ''${'' (promptFor Composite (lifestylePresetClick s)))"
  unfolding promptFor_TryOn promptFor_Composite_lifestyle
  using prompt_tryon_40(1,2) prompt_composite_40_06 [of "placementSelectValue s"]
    prompt_composite_no_placeholder [of "placementSelectValue s"]
  by simp

theorem prompt_substitutes_slider_values_witness:
  "CHR ''$'' \<notin> set (placementSelectValue example_state)
   \<and> \<not> sublist ''${'' (promptFor Composite (lifestylePresetClick example_state))
   \<and> sublist ''shadows with an intensity of about 0.6 (where 0.0 is none''
       (promptFor Composite (lifestylePresetClick example_state))
   \<and> sublist ''scaled to approximately 40% of the person''
       (promptFor TryOn (example_state\<lparr>scaleSliderValue := ''40''\<rparr>))"
proof -
  have p: "CHR ''$'' \<notin> set (placementSelectValue example_state)"
    by (simp add: example_state_def)
  show ?thesis
    using p prompt_substitutes_slider_values [of example_state]
    by blast
qed

text \<open>
  \<^bold>\<open>C7.\<close> A click dispatches at most one request. Every request it dispatches carries
  exactly three content parts in this order: the product image as inline data, the scene
  photo as inline data, the text prompt; and it declares exactly the response modalities
  \<open>IMAGE\<close> and \<open>TEXT\<close>, in this order. When both files are selected and read and the
  credential is set, the request is dispatched, and the two inline parts are built from the
  product file and from the photo file. This holds for both pages of \<^verbatim>\<open>part_000\<close> and for
  \<^verbatim>\<open>index.tsx\<close>.
\<close>

theorem dispatched_request_has_three_ordered_parts:
  "(calls (snd (generateClick pg net s)) = calls s
    \<or> (\<exists>a b. calls (snd (generateClick pg net s)) =
          calls s @
          [\<lparr>model = ''gemini-2.5-flash-image-preview'',
            contentsParts = [InlineData a, InlineData b, Text (promptFor pg s)],
            responseModalities = [IMAGE, TEXT]\<rparr>]))
 \<and> (ixCalls (snd (ixGenerateClick inet t)) = ixCalls t
    \<or> (\<exists>a b. ixCalls (snd (ixGenerateClick inet t)) =
          ixCalls t @
          [\<lparr>model = ''gemini-2.5-flash-image-preview'',
            contentsParts =
              [InlineData a, InlineData b,
               Text (prompt_index (ixPlacementSelectValue t) (ixScaleSliderValue t)
                       (ixShadowSliderValue t))],
            responseModalities = [IMAGE, TEXT]\<rparr>]))
 \<and> (productFile s = Some pf \<and> photoFile s = Some sf \<and> apiKey s = Some k \<and> k \<noteq> []
      \<and> readAsDataURL pf = Some pu \<and> readAsDataURL sf = Some su \<longrightarrow>
    calls (snd (generateClick pg net s)) =
      calls s @
      [\<lparr>model = ''gemini-2.5-flash-image-preview'',
        contentsParts =
          [InlineData \<lparr>mimeType = fileType pf,
                       data = js_index (js_split CHR '','' pu) 1, url = pu\<rparr>,
           InlineData \<lparr>mimeType = fileType sf,
                       data = js_index (js_split CHR '','' su) 1, url = su\<rparr>,
           Text (promptFor pg s)],
        responseModalities = [IMAGE, TEXT]\<rparr>])
 \<and> (ixProductFile t = Some pf \<and> ixPhotoFile t = Some sf \<and> ixApiKey t = Some k \<and> k \<noteq> []
      \<and> readAsDataURL pf = Some pu \<and> readAsDataURL sf = Some su \<longrightarrow>
    ixCalls (snd (ixGenerateClick inet t)) =
      ixCalls t @
      [\<lparr>model = ''gemini-2.5-flash-image-preview'',
        contentsParts =
          [InlineData \<lparr>ixMimeType = fileType pf,
                       ixData = js_index (js_split CHR '','' pu) 1\<rparr>,
           InlineData \<lparr>ixMimeType = fileType sf,
                       ixData = js_index (js_split CHR '','' su) 1\<rparr>,
           Text (prompt_index (ixPlacementSelectValue t) (ixScaleSliderValue t)
                   (ixShadowSliderValue t))],
        responseModalities = [IMAGE, TEXT]\<rparr>])"
proof -
  have tr: "truthy (Some k)" if "k \<noteq> []" for k
    using that by (simp add: truthy_def)
  have c: "calls (snd (generateClick pg net s)) =
      calls s @
      [\<lparr>model = ''gemini-2.5-flash-image-preview'',
        contentsParts =
          [InlineData \<lparr>mimeType = fileType pf,
                       data = js_index (js_split CHR '','' pu) 1, url = pu\<rparr>,
           InlineData \<lparr>mimeType = fileType sf,
                       data = js_index (js_split CHR '','' su) 1, url = su\<rparr>,
           Text (promptFor pg s)],
        responseModalities = [IMAGE, TEXT]\<rparr>]"
    if "productFile s = Some pf \<and> photoFile s = Some sf \<and> apiKey s = Some k \<and> k \<noteq> []
      \<and> readAsDataURL pf = Some pu \<and> readAsDataURL sf = Some su"
    using that generateClick_calls_read [of s pf sf pu su pg net] tr [of k] by simp
  have d: "ixCalls (snd (ixGenerateClick inet t)) =
      ixCalls t @
      [\<lparr>model = ''gemini-2.5-flash-image-preview'',
        contentsParts =
          [InlineData \<lparr>ixMimeType = fileType pf,
                       ixData = js_index (js_split CHR '','' pu) 1\<rparr>,
           InlineData \<lparr>ixMimeType = fileType sf,
                       ixData = js_index (js_split CHR '','' su) 1\<rparr>,
           Text (prompt_index (ixPlacementSelectValue t) (ixScaleSliderValue t)
                   (ixShadowSliderValue t))],
        responseModalities = [IMAGE, TEXT]\<rparr>]"
    if "ixProductFile t = Some pf \<and> ixPhotoFile t = Some sf \<and> ixApiKey t = Some k \<and> k \<noteq> []
      \<and> readAsDataURL pf = Some pu \<and> readAsDataURL sf = Some su"
    using that ixGenerateClick_calls_read [of t pf sf pu su inet] tr [of k] by simp
  show ?thesis
    using generateClick_calls_cases [of pg net s] ixGenerateClick_calls_cases [of inet t] c d
    by blast
qed

theorem dispatched_request_has_three_ordered_parts_witness:
  "calls (snd (generateClick Composite image_net example_state)) =
     [\<lparr>model = ''gemini-2.5-flash-image-preview'',
       contentsParts =
         [InlineData \<lparr>mimeType = ''image/jpeg'', data = Some ''AAAA'',
                      url = ''data:image/jpeg;base64,AAAA''\<rparr>,
          InlineData \<lparr>mimeType = ''image/png'', data = Some ''BBBB'',
                      url = ''data:image/png;base64,BBBB''\<rparr>,
          Text (promptFor Composite example_state)],
       responseModalities = [IMAGE, TEXT]\<rparr>]
   \<and> ixCalls (snd (ixGenerateClick index_image_net example_index_state)) =
     [\<lparr>model = ''gemini-2.5-flash-image-preview'',
       contentsParts =
         [InlineData \<lparr>ixMimeType = ''image/jpeg'', ixData = Some ''AAAA''\<rparr>,
          InlineData \<lparr>ixMimeType = ''image/png'', ixData = Some ''BBBB''\<rparr>,
          Text (prompt_index ''center'' ''40'' ''60'')],
       responseModalities = [IMAGE, TEXT]\<rparr>]"
proof -
  have h: "productFile example_state = Some example_product
      \<and> photoFile example_state = Some example_photo
      \<and> apiKey example_state = Some ''key'' \<and> ''key'' \<noteq> []
      \<and> readAsDataURL example_product = Some ''data:image/jpeg;base64,AAAA''
      \<and> readAsDataURL example_photo = Some ''data:image/png;base64,BBBB''"
    by (simp add: example_state_def example_product_def example_photo_def)
  have hi: "ixProductFile example_index_state = Some example_product
      \<and> ixPhotoFile example_index_state = Some example_photo
      \<and> ixApiKey example_index_state = Some ''key'' \<and> ''key'' \<noteq> []
      \<and> readAsDataURL example_product = Some ''data:image/jpeg;base64,AAAA''
      \<and> readAsDataURL example_photo = Some ''data:image/png;base64,BBBB''"
    by (simp add: example_index_state_def example_product_def example_photo_def)
  have c: "calls example_state = []"
    by (simp add: example_state_def)
  have ci: "ixCalls example_index_state = []"
    "ixPlacementSelectValue example_index_state = ''center''"
    "ixScaleSliderValue example_index_state = ''40''"
    "ixShadowSliderValue example_index_state = ''60''"
    by (simp_all add: example_index_state_def)
  have p: "js_index (js_split CHR '','' ''data:image/jpeg;base64,AAAA'') 1 = Some ''AAAA''"
    "js_index (js_split CHR '','' ''data:image/png;base64,BBBB'') 1 = Some ''BBBB''"
    by simp_all
  have t: "fileType example_product = ''image/jpeg''" "fileType example_photo = ''image/png''"
    by (simp_all add: example_product_def example_photo_def)
  note inst = dispatched_request_has_three_ordered_parts
      [where s = example_state and pg = Composite and net = image_net
         and t = example_index_state and inet = index_image_net
         and pf = example_product and sf = example_photo and k = "''key''"
         and pu = "''data:image/jpeg;base64,AAAA''" and su = "''data:image/png;base64,BBBB''"]
  have a: "calls (snd (generateClick Composite image_net example_state)) =
      calls example_state @
      [\<lparr>model = ''gemini-2.5-flash-image-preview'',
        contentsParts =
          [InlineData \<lparr>mimeType = fileType example_product,
                       data = js_index (js_split CHR '','' ''data:image/jpeg;base64,AAAA'') 1,
                       url = ''data:image/jpeg;base64,AAAA''\<rparr>,
           InlineData \<lparr>mimeType = fileType example_photo,
                       data = js_index (js_split CHR '','' ''data:image/png;base64,BBBB'') 1,
                       url = ''data:image/png;base64,BBBB''\<rparr>,
           Text (promptFor Composite example_state)],
        responseModalities = [IMAGE, TEXT]\<rparr>]"
    using h inst by blast
  have b: "ixCalls (snd (ixGenerateClick index_image_net example_index_state)) =
      ixCalls example_index_state @
      [\<lparr>model = ''gemini-2.5-flash-image-preview'',
        contentsParts =
          [InlineData \<lparr>ixMimeType = fileType example_product,
                       ixData = js_index (js_split CHR '','' ''data:image/jpeg;base64,AAAA'') 1\<rparr>,
           InlineData \<lparr>ixMimeType = fileType example_photo,
                       ixData = js_index (js_split CHR '','' ''data:image/png;base64,BBBB'') 1\<rparr>,
           Text (prompt_index (ixPlacementSelectValue example_index_state)
                   (ixScaleSliderValue example_index_state)
                   (ixShadowSliderValue example_index_state))],
        responseModalities = [IMAGE, TEXT]\<rparr>]"
    using hi inst by blast
  show ?thesis
    using a b unfolding c ci p t by simp
qed

text \<open>
  \<^bold>\<open>C8.\<close> A click changes the history only by recording one result built from a response
  whose first candidate yielded at least one inline image part, and that result has as many
  variants as there were such parts (so at least one). A response whose parts are all
  without inline data yields no image part, ends as \<open>NoImageReturned\<close> and leaves the
  history as it was; so does every click when the service answers without image parts.
  Every entry of the history keeps at least one variant.
\<close>

theorem history_entry_only_from_image_part:
  "(history (snd (generateClick pg net s)) = history s
    \<or> (\<exists>req resp ips sf su.
          net req = Inr resp \<and> imageParts resp = Some ips \<and> ips \<noteq> []
        \<and> photoFile s = Some sf \<and> readAsDataURL sf = Some su
        \<and> length (List.map_filter inlineData ips) = length ips
        \<and> fst (generateClick pg net s) = Inr ()
        \<and> history (snd (generateClick pg net s)) =
            history (updateHistory
              \<lparr>original = su,
               variants = map (\<lambda>b. ''data:'' @ blobMimeType b @ '';base64,'' @ blobData b)
                            (List.map_filter inlineData ips)\<rparr> s)))
 \<and> ((\<forall>req resp. net req = Inr resp \<longrightarrow> imageParts resp = None \<or> imageParts resp = Some [])
      \<longrightarrow> history (snd (generateClick pg net s)) = history s)
 \<and> (candidates resp = Some (c # cs) \<and> candidateContent c = Some ct \<and> parts ct = Some ps
      \<and> (\<forall>p\<in>set ps. inlineData p = None)
      \<longrightarrow> imageParts resp = Some []
        \<and> (\<exists>x. fst (handleResponse resp s) = Inr (Inl (NoImageReturned x)))
        \<and> history (snd (handleResponse resp s)) = history s)
 \<and> ((\<forall>h\<in>set (history s). variants h \<noteq> [])
      \<longrightarrow> (\<forall>h\<in>set (history (snd (generateClick pg net s))). variants h \<noteq> []))"
proof -
  let ?r = "fst (generateClick pg net s)"
  let ?s' = "snd (generateClick pg net s)"
  note a = generateClick_history_cases [of pg net s]
  have b: "(\<forall>req resp. net req = Inr resp \<longrightarrow> imageParts resp = None \<or> imageParts resp = Some [])
      \<longrightarrow> history ?s' = history s"
  proof
    assume n: "\<forall>req resp. net req = Inr resp \<longrightarrow>
      imageParts resp = None \<or> imageParts resp = Some []"
    from a show "history ?s' = history s"
    proof
      assume "history ?s' = history s"
      then show ?thesis .
    next
      assume "\<exists>req resp ips sf su.
          net req = Inr resp \<and> imageParts resp = Some ips \<and> ips \<noteq> []
        \<and> photoFile s = Some sf \<and> readAsDataURL sf = Some su
        \<and> length (List.map_filter inlineData ips) = length ips
        \<and> ?r = Inr ()
        \<and> history ?s' =
            history (updateHistory
              \<lparr>original = su,
               variants = map (\<lambda>b. ''data:'' @ blobMimeType b @ '';base64,'' @ blobData b)
                            (List.map_filter inlineData ips)\<rparr> s)"
      then obtain req resp ips where o: "net req = Inr resp" "imageParts resp = Some ips"
        "ips \<noteq> []"
        by blast
      have "imageParts resp = None \<or> imageParts resp = Some []"
        using n o(1) by blast
      then have False using o(2,3) by simp
      then show ?thesis ..
    qed
  qed
  have c: "candidates resp = Some (c # cs) \<and> candidateContent c = Some ct \<and> parts ct = Some ps
      \<and> (\<forall>p\<in>set ps. inlineData p = None)
      \<longrightarrow> imageParts resp = Some []
        \<and> (\<exists>x. fst (handleResponse resp s) = Inr (Inl (NoImageReturned x)))
        \<and> history (snd (handleResponse resp s)) = history s"
  proof
    assume h: "candidates resp = Some (c # cs) \<and> candidateContent c = Some ct
      \<and> parts ct = Some ps \<and> (\<forall>p\<in>set ps. inlineData p = None)"
    have ip: "imageParts resp = Some []"
      using h imageParts_all_text [of resp c cs ct ps] by blast
    then have ni: "imageParts resp = None \<or> imageParts resp = Some []" by simp
    show "imageParts resp = Some []
        \<and> (\<exists>x. fst (handleResponse resp s) = Inr (Inl (NoImageReturned x)))
        \<and> history (snd (handleResponse resp s)) = history s"
      by (simp add: ip handleResponse_no_image [OF ni] noImageBranch_fst noImageBranch_frame
          hide_frame)
  qed
  have d: "(\<forall>h\<in>set (history s). variants h \<noteq> [])
      \<longrightarrow> (\<forall>h\<in>set (history ?s'). variants h \<noteq> [])"
    by (rule impI) (rule generateClick_variants_invariant)
  show ?thesis
    by (rule conjI [OF a conjI [OF b conjI [OF c d]]])
qed

theorem history_entry_only_from_image_part_witness:
  "imageParts text_only_response = Some []
   \<and> history (snd (generateClick Composite text_only_net example_state)) = [example_item]
   \<and> history (snd (handleResponse text_only_response example_state)) = [example_item]
   \<and> [] \<notin> set (map variants (history (snd (generateClick Composite image_net example_state))))"
proof -
  have ip: "imageParts text_only_response = Some []"
    by (simp add: imageParts_def text_only_response_def text_part_def)
  have n: "\<forall>req resp. text_only_net req = Inr resp \<longrightarrow>
      imageParts resp = None \<or> imageParts resp = Some []"
    by (simp add: text_only_net_def ip)
  have h: "history example_state = [example_item]"
    by (simp add: example_state_def)
  have t: "candidates text_only_response =
        Some (\<lparr>candidateContent = Some \<lparr>parts = Some [text_part]\<rparr>\<rparr> # [])
      \<and> candidateContent \<lparr>candidateContent = Some \<lparr>parts = Some [text_part]\<rparr>\<rparr> =
        Some \<lparr>parts = Some [text_part]\<rparr>
      \<and> parts \<lparr>parts = Some [text_part]\<rparr> = Some [text_part]
      \<and> (\<forall>p\<in>set [text_part]. inlineData p = None)"
    by (simp add: text_only_response_def text_part_def)
  have inv: "\<forall>h\<in>set (history example_state). variants h \<noteq> []"
    unfolding h by (simp add: example_item_def)
  have a: "history (snd (generateClick Composite text_only_net example_state)) =
      history example_state"
    using n history_entry_only_from_image_part
      [where net = text_only_net and s = example_state and pg = Composite]
    by blast
  have b: "history (snd (handleResponse text_only_response example_state)) =
      history example_state"
    using t history_entry_only_from_image_part
      [where resp = text_only_response and s = example_state
         and c = "\<lparr>candidateContent = Some \<lparr>parts = Some [text_part]\<rparr>\<rparr>" and cs = "[]"
         and ct = "\<lparr>parts = Some [text_part]\<rparr>" and ps = "[text_part]"]
    by blast
  have c: "\<forall>h\<in>set (history (snd (generateClick Composite image_net example_state))).
      variants h \<noteq> []"
    using inv history_entry_only_from_image_part
      [where net = image_net and s = example_state and pg = Composite]
    by blast
  have d: "[] \<notin> set (map variants
      (history (snd (generateClick Composite image_net example_state))))"
    using c by (simp add: image_iff) metis
  show ?thesis
    using ip a b d unfolding h by simp
qed

text \<open>
  \<^bold>\<open>C9.\<close> The extraction reads the parts of the first candidate only: what the other
  candidates carry changes nothing. A response with no candidates, with an empty list of
  candidates, or whose first candidate has no content, no parts or an empty list of parts
  ends as \<open>NoImageReturned\<close> (the \<^verbatim>\<open>try\<close> block completes; nothing is thrown), and
  leaves the history as it was.
\<close>

theorem extractor_reads_first_candidate_only:
  "imageParts (resp\<lparr>candidates := Some (c # cs)\<rparr>) = imageParts (resp\<lparr>candidates := Some [c]\<rparr>)
 \<and> handleResponse (resp\<lparr>candidates := Some (c # cs)\<rparr>) s =
     handleResponse (resp\<lparr>candidates := Some [c]\<rparr>) s
 \<and> ixHandleResponse (resp\<lparr>candidates := Some (c # cs)\<rparr>) t =
     ixHandleResponse (resp\<lparr>candidates := Some [c]\<rparr>) t
 \<and> (candidates resp = None \<or> candidates resp = Some []
      \<or> (\<exists>d ds. candidates resp = Some (d # ds)
            \<and> (candidateContent d = None
                \<or> candidateContent d = Some \<lparr>parts = None\<rparr>
                \<or> candidateContent d = Some \<lparr>parts = Some []\<rparr>))
    \<longrightarrow> fst (handleResponse resp s) =
          Inr (Inl (NoImageReturned
            (case responseText resp of
               None \<Rightarrow> ''No text response.''
             | Some x \<Rightarrow> if x = [] then ''No text response.'' else x)))
      \<and> fst (ixHandleResponse resp t) =
          Inl (NoImageReturned
            (case responseText resp of
               None \<Rightarrow> ''No text response.''
             | Some x \<Rightarrow> if x = [] then ''No text response.'' else x))
      \<and> history (snd (handleResponse resp s)) = history s)"
proof -
  have a: "imageParts (resp\<lparr>candidates := Some (c # cs)\<rparr>) =
           imageParts (resp\<lparr>candidates := Some [c]\<rparr>)"
    by (rule imageParts_candidates_cong)
  have b: "handleResponse (resp\<lparr>candidates := Some (c # cs)\<rparr>) s =
     handleResponse (resp\<lparr>candidates := Some [c]\<rparr>) s"
    by (rule handleResponse_cong [OF a]) simp
  have c: "ixHandleResponse (resp\<lparr>candidates := Some (c # cs)\<rparr>) t =
     ixHandleResponse (resp\<lparr>candidates := Some [c]\<rparr>) t"
    by (rule ixHandleResponse_cong [OF a]) simp
  have d: "fst (handleResponse resp s) =
          Inr (Inl (NoImageReturned
            (case responseText resp of
               None \<Rightarrow> ''No text response.''
             | Some x \<Rightarrow> if x = [] then ''No text response.'' else x)))
      \<and> fst (ixHandleResponse resp t) =
          Inl (NoImageReturned
            (case responseText resp of
               None \<Rightarrow> ''No text response.''
             | Some x \<Rightarrow> if x = [] then ''No text response.'' else x))
      \<and> history (snd (handleResponse resp s)) = history s"
    if h: "candidates resp = None \<or> candidates resp = Some []
      \<or> (\<exists>d ds. candidates resp = Some (d # ds)
            \<and> (candidateContent d = None
                \<or> candidateContent d = Some \<lparr>parts = None\<rparr>
                \<or> candidateContent d = Some \<lparr>parts = Some []\<rparr>))"
  proof -
    have ni: "imageParts resp = None \<or> imageParts resp = Some []"
      using h by (auto simp add: imageParts_def)
    show ?thesis
      by (simp add: handleResponse_no_image [OF ni] ixHandleResponse_no_image [OF ni]
          noImageBranch_fst noImageBranch_frame hide_frame or_else_def)
  qed
  show ?thesis using a b c d by blast
qed

theorem extractor_reads_first_candidate_only_witness:
  "candidates second_candidate_response =
     Some [\<lparr>candidateContent = None\<rparr>,
           \<lparr>candidateContent = Some \<lparr>parts = Some [image_part_1]\<rparr>\<rparr>]
   \<and> fst (handleResponse second_candidate_response example_state) =
       Inr (Inl (NoImageReturned ''No text response.''))
   \<and> fst (ixHandleResponse second_candidate_response example_index_state) =
       Inl (NoImageReturned ''No text response.'')"
proof -
  have c: "candidates second_candidate_response =
     Some [\<lparr>candidateContent = None\<rparr>,
           \<lparr>candidateContent = Some \<lparr>parts = Some [image_part_1]\<rparr>\<rparr>]"
    by (simp add: second_candidate_response_def)
  have h: "candidates second_candidate_response = None
      \<or> candidates second_candidate_response = Some []
      \<or> (\<exists>d ds. candidates second_candidate_response = Some (d # ds)
            \<and> (candidateContent d = None
                \<or> candidateContent d = Some \<lparr>parts = None\<rparr>
                \<or> candidateContent d = Some \<lparr>parts = Some []\<rparr>))"
    unfolding c by simp
  have t: "responseText second_candidate_response = None"
    by (simp add: second_candidate_response_def)
  show ?thesis
    using extractor_reads_first_candidate_only
      [where resp = second_candidate_response and s = example_state
         and t = example_index_state] h c
    unfolding t by simp
qed

text \<open>
  \<^bold>\<open>C10.\<close> Showing a result, and so selecting any child of the rendered history, leaves
  the history list and its rendering as they were: no entry is added, removed, reordered or
  changed. (The variants array of the shown entry becomes the value of
  \<^verbatim>\<open>currentGeneratedSources\<close>; the page never writes into that array, so the sharing is
  not observable and the lists are modelled as values.)
\<close>

theorem select_leaves_history_unchanged:
  "history (showResult item s) = history s
 \<and> historyChildren (showResult item s) = historyChildren s
 \<and> history (historyItemClick i s) = history s
 \<and> historyChildren (historyItemClick i s) = historyChildren s
 \<and> originalPhotoSrc (historyItemClick i s) = originalPhotoSrc s"
  by (simp add: historyItemClick_frame)

theorem select_leaves_history_unchanged_witness:
  "history (historyItemClick 0 example_state) = [example_item]
   \<and> historyChildren (historyItemClick 0 example_state) =
       [HistoryImg (Some ''data:image/png;base64,VAR0'') example_item]"
proof -
  have h: "history example_state = [example_item]"
    "historyChildren example_state =
       [HistoryImg (Some ''data:image/png;base64,VAR0'') example_item]"
    by (simp_all add: example_state_def)
  show ?thesis
    using select_leaves_history_unchanged [of example_item example_state 0]
    unfolding h by simp
qed

end
